theory Spec2Isabelle
  imports Main
begin

section \<open>Values and exceptions\<close>

text \<open>
  The service (\<^verbatim>\<open>docker-images/fastapi/main.py\<close>) is a single Python module. Its
  \<^verbatim>\<open>DatabaseManager\<close> class owns one psycopg2 connection. The class is embedded
  function by function; the Python builtin \<^verbatim>\<open>int\<close>, \<^verbatim>\<open>json.loads\<close> and the psycopg2
  driver are libraries outside the module and enter as parameters, so every theorem holds
  whatever those libraries answer.

  A Python string is the list of its code points; \<^typ>\<open>string\<close> holds the texts whose code
  points are below 256, one \<^typ>\<open>char\<close> for each.
\<close>

text \<open>
  What \<^verbatim>\<open>json.loads\<close> can return. A Python \<^verbatim>\<open>dict\<close> is kept as the list of its
  items and read with \<^const>\<open>map_of\<close>; a float is kept as its lexeme, since only its
  kind matters here.
\<close>

datatype json =
    JNull
  | JBool bool
  | JInt int
  | JFloat string
  | JStr string
  | JArr "json list"
  | JObj "(string \<times> json) list"

text \<open>
  Exceptions, all of them subclasses of Python's \<^verbatim>\<open>Exception\<close>. One constructor per
  class and origin:
  \<^item> \<open>ValueError\<close>: raised by a \<^verbatim>\<open>raise ValueError(msg)\<close> statement of the module;
  \<^item> \<open>IntValueError\<close>: the \<^verbatim>\<open>ValueError\<close> that the builtin \<^verbatim>\<open>int(s)\<close> raises, with the
    text \<open>s\<close> it was given;
  \<^item> \<open>JSONDecodeError\<close>: \<^verbatim>\<open>json.JSONDecodeError\<close>, with \<^verbatim>\<open>str(e)\<close>;
  \<^item> \<open>OperationalError\<close>: \<^verbatim>\<open>psycopg2.OperationalError\<close>;
  \<^item> \<open>Psycopg2Error\<close>: any other subclass of \<^verbatim>\<open>psycopg2.Error\<close>;
  \<^item> \<open>OtherException\<close>: any other subclass of \<^verbatim>\<open>Exception\<close>.
  \<^verbatim>\<open>KeyboardInterrupt\<close> and \<^verbatim>\<open>SystemExit\<close> are not subclasses of \<^verbatim>\<open>Exception\<close> and are
  not modelled.
\<close>

datatype exn =
    ValueError string
  | IntValueError string
  | JSONDecodeError string
  | TypeError string
  | KeyError string
  | AttributeError string
  | OperationalError string
  | Psycopg2Error string
  | OtherException string

text \<open>The class tests of the \<^verbatim>\<open>except\<close> clauses.\<close>

fun is_OperationalError :: "exn \<Rightarrow> bool" where
  "is_OperationalError (OperationalError _) = True"
| "is_OperationalError _ = False"

fun is_psycopg2_Error :: "exn \<Rightarrow> bool" where
  "is_psycopg2_Error (OperationalError _) = True"
| "is_psycopg2_Error (Psycopg2Error _) = True"
| "is_psycopg2_Error _ = False"

section \<open>Connection parameters\<close>

text \<open>The process environment read by \<^verbatim>\<open>os.getenv\<close>.\<close>

type_synonym environ = "string \<rightharpoonup> string"

definition getenv :: "environ \<Rightarrow> string \<Rightarrow> string \<Rightarrow> string" where
  "getenv env k d = (case env k of None \<Rightarrow> d | Some v \<Rightarrow> v)"

text \<open>
  The two library functions \<^verbatim>\<open>get_connection_params\<close> calls: \<open>py_int s\<close> is \<^verbatim>\<open>int(s)\<close>
  on a string (\<open>None\<close> when it raises), \<open>json_loads s\<close> is \<^verbatim>\<open>json.loads(s)\<close>.
\<close>

record pylib =
  py_int :: "string \<Rightarrow> int option"
  json_loads :: "string \<Rightarrow> exn + json"

text \<open>Python's \<^verbatim>\<open>k in v\<close> and \<^verbatim>\<open>v[k]\<close> for a string \<open>k\<close> and a decoded JSON value \<open>v\<close>.\<close>

fun str_contains :: "string \<Rightarrow> string \<Rightarrow> bool" where
  "str_contains [] k = (k = [])"
| "str_contains (c # cs) k = (take (length k) (c # cs) = k \<or> str_contains cs k)"

fun py_contains :: "json \<Rightarrow> string \<Rightarrow> exn + bool" where
  "py_contains (JObj kvs) k = Inr (map_of kvs k \<noteq> None)"
| "py_contains (JArr xs) k = Inr (JStr k \<in> set xs)"
| "py_contains (JStr t) k = Inr (str_contains t k)"
| "py_contains JNull k = Inl (TypeError ''argument of type 'NoneType' is not iterable'')"
| "py_contains (JBool b) k = Inl (TypeError ''argument of type 'bool' is not iterable'')"
| "py_contains (JInt i) k = Inl (TypeError ''argument of type 'int' is not iterable'')"
| "py_contains (JFloat f) k = Inl (TypeError ''argument of type 'float' is not iterable'')"

fun py_getitem :: "json \<Rightarrow> string \<Rightarrow> exn + json" where
  "py_getitem (JObj kvs) k = (case map_of kvs k of None \<Rightarrow> Inl (KeyError k) | Some v \<Rightarrow> Inr v)"
| "py_getitem (JArr xs) k = Inl (TypeError ''list indices must be integers or slices, not str'')"
| "py_getitem (JStr t) k = Inl (TypeError ''string indices must be integers'')"
| "py_getitem v k = Inl (TypeError ''object is not subscriptable'')"

text \<open>The dictionary \<^verbatim>\<open>get_connection_params\<close> returns, key by key.\<close>

record conn_params =
  host :: string
  database :: string
  user :: json
  password :: json
  port :: int
  connect_timeout :: int
  application_name :: string

text \<open>
  \<^verbatim>\<open>DatabaseManager.get_connection_params\<close> (lines 33 to 89). The statements run in the
  source's order: the port is parsed first, then the secret is tested, then the host. The
  outer \<^verbatim>\<open>except Exception\<close> logs and re-raises, so it changes no result. A host that is
  unset or empty is falsy. Only a \<^verbatim>\<open>json.JSONDecodeError\<close> of the decoder is turned into
  the module's own \<^verbatim>\<open>ValueError\<close>, with \<^verbatim>\<open>str(e)\<close> appended to the message.
\<close>

definition get_connection_params :: "pylib \<Rightarrow> environ \<Rightarrow> exn + conn_params" where
  "get_connection_params lib env =
    (let database_host = env ''DATABASE_HOST'';
         database_name = getenv env ''DATABASE_NAME'' ''postgres''
     in case py_int lib (getenv env ''DATABASE_PORT'' ''5432'') of
          None \<Rightarrow> Inl (IntValueError (getenv env ''DATABASE_PORT'' ''5432''))
        | Some database_port \<Rightarrow>
            (let database_secret = getenv env ''DATABASE_URL'' []
             in if database_secret = [] then
                  Inl (ValueError ''DATABASE_URL secret not available from Kubernetes'')
                else if database_host = None \<or> database_host = Some [] then
                  Inl (ValueError ''DATABASE_HOST not available from environment'')
                else
                  (case json_loads lib database_secret of
                     Inl e \<Rightarrow>
                       (case e of
                          JSONDecodeError m \<Rightarrow>
                            Inl (ValueError (''Invalid JSON in DATABASE_URL secret: '' @ m))
                        | _ \<Rightarrow> Inl e)
                   | Inr secret \<Rightarrow>
                       (case py_contains secret ''username'' of
                          Inl e \<Rightarrow> Inl e
                        | Inr has_username \<Rightarrow>
                            if \<not> has_username then
                              Inl (ValueError ''Secret missing required 'username' field'')
                            else
                              (case py_contains secret ''password'' of
                                 Inl e \<Rightarrow> Inl e
                               | Inr has_password \<Rightarrow>
                                   if \<not> has_password then
                                     Inl (ValueError ''Secret missing required 'password' field'')
                                   else
                                     (case py_getitem secret ''username'' of
                                        Inl e \<Rightarrow> Inl e
                                      | Inr username \<Rightarrow>
                                          (case py_getitem secret ''password'' of
                                             Inl e \<Rightarrow> Inl e
                                           | Inr passwd \<Rightarrow>
                                               Inr \<lparr>host = the database_host,
                                                    database = database_name,
                                                    user = username,
                                                    password = passwd,
                                                    port = database_port,
                                                    connect_timeout = 10,
                                                    application_name = ''fastapi-stage4v1''\<rparr>)))))))"

text \<open>
  The exceptions that the \<^verbatim>\<open>raise ValueError(...)\<close> statements of
  \<^verbatim>\<open>get_connection_params\<close> produce: secret not available, host not available, invalid
  JSON (with the decoder's text appended), and a missing \<^verbatim>\<open>username\<close> or \<^verbatim>\<open>password\<close> field.
\<close>

fun is_config_error :: "exn \<Rightarrow> bool" where
  "is_config_error (ValueError m) =
    (m = ''DATABASE_URL secret not available from Kubernetes''
     \<or> m = ''DATABASE_HOST not available from environment''
     \<or> take (length ''Invalid JSON in DATABASE_URL secret: '') m
         = ''Invalid JSON in DATABASE_URL secret: ''
     \<or> m = ''Secret missing required 'username' field''
     \<or> m = ''Secret missing required 'password' field'')"
| "is_config_error _ = False"

section \<open>The driver and the manager's state\<close>

text \<open>
  A column value of a fetched row, and Python's \<^verbatim>\<open>v == 1\<close> on it (\<^verbatim>\<open>True == 1\<close> holds in
  Python). Floating-point columns are not modelled.
\<close>

datatype pyval = PyNone | PyBool bool | PyInt int | PyStr string

type_synonym row = "pyval list"

fun py_eq_1 :: "pyval \<Rightarrow> bool" where
  "py_eq_1 (PyInt i) = (i = 1)"
| "py_eq_1 (PyBool b) = b"
| "py_eq_1 _ = False"

text \<open>Connection objects and cursor objects are known by their identity.\<close>

type_synonym handle = nat
type_synonym cursor = nat

text \<open>
  The psycopg2 calls the manager makes, over any world \<open>'w\<close> (the database server, the
  network, the driver's own objects). Each call returns its result or the exception it
  raised, and the world after it. \<open>drv_closed w h\<close> reads \<^verbatim>\<open>connection.closed\<close> (nonzero
  is true); reading the attribute does no I/O.
\<close>

record 'w driver =
  drv_connect :: "conn_params \<Rightarrow> 'w \<Rightarrow> (exn + handle) \<times> 'w"
  drv_closed :: "'w \<Rightarrow> handle \<Rightarrow> bool"
  drv_set_autocommit :: "handle \<Rightarrow> bool \<Rightarrow> 'w \<Rightarrow> (exn + unit) \<times> 'w"
  drv_cursor :: "handle \<Rightarrow> 'w \<Rightarrow> (exn + cursor) \<times> 'w"
  drv_execute :: "cursor \<Rightarrow> string \<Rightarrow> pyval list option \<Rightarrow> 'w \<Rightarrow> (exn + unit) \<times> 'w"
  drv_fetchone :: "cursor \<Rightarrow> 'w \<Rightarrow> (exn + row option) \<times> 'w"
  drv_fetchall :: "cursor \<Rightarrow> 'w \<Rightarrow> (exn + row list) \<times> 'w"
  drv_cursor_close :: "cursor \<Rightarrow> 'w \<Rightarrow> (exn + unit) \<times> 'w"
  drv_close :: "handle \<Rightarrow> 'w \<Rightarrow> (exn + unit) \<times> 'w"

text \<open>
  Every driver call is recorded with its outcome, in order. The record is not part of the
  program: it is what the theorems below use to say which calls were made.
\<close>

datatype event =
    Connect conn_params "exn + handle"
  | SetAutocommit handle bool "exn + unit"
  | Cursor handle "exn + cursor"
  | Execute cursor string "pyval list option" "exn + unit"
  | Fetchone cursor "exn + row option"
  | Fetchall cursor "exn + row list"
  | CursorClose cursor "exn + unit"
  | Close handle "exn + unit"

text \<open>
  The manager: \<^verbatim>\<open>self.connection\<close> (\<open>None\<close> or a connection object), the world, and the
  calls made so far.
\<close>

record 'w manager =
  connection :: "handle option"
  world :: 'w
  trace :: "event list"

type_synonym ('w, 'a) action = "'w manager \<Rightarrow> (exn + 'a) \<times> 'w manager"

definition return :: "'a \<Rightarrow> ('w, 'a) action" where
  "return x s = (Inr x, s)"

definition raise :: "exn \<Rightarrow> ('w, 'a) action" where
  "raise e s = (Inl e, s)"

text \<open>Sequencing: an exception ends the block, with the state reached so far.\<close>

definition and_then :: "('w, 'a) action \<Rightarrow> ('a \<Rightarrow> ('w, 'b) action) \<Rightarrow> ('w, 'b) action" where
  "and_then m f s = (case m s of (Inl e, s') \<Rightarrow> (Inl e, s') | (Inr x, s') \<Rightarrow> f x s')"

text \<open>A driver call: the world moves on and the call is recorded with its outcome.\<close>

definition call :: "((exn + 'a) \<Rightarrow> event) \<Rightarrow> ('w \<Rightarrow> (exn + 'a) \<times> 'w) \<Rightarrow> ('w, 'a) action" where
  "call ev f s =
    (case f (world s) of (r, w') \<Rightarrow> (r, s\<lparr>world := w', trace := trace s @ [ev r]\<rparr>))"

text \<open>\<^verbatim>\<open>self.connection and not self.connection.closed\<close>.\<close>

definition connection_open :: "'w driver \<Rightarrow> 'w manager \<Rightarrow> bool" where
  "connection_open drv s =
    (case connection s of None \<Rightarrow> False | Some h \<Rightarrow> \<not> drv_closed drv (world s) h)"

text \<open>\<^verbatim>\<open>self.connection.cursor()\<close>: on \<^verbatim>\<open>None\<close> the attribute lookup raises.\<close>

definition connection_cursor :: "'w driver \<Rightarrow> ('w, cursor) action" where
  "connection_cursor drv s =
    (case connection s of
       None \<Rightarrow> raise (AttributeError ''NoneType object has no attribute cursor'') s
     | Some h \<Rightarrow> call (Cursor h) (drv_cursor drv h) s)"

text \<open>\<^verbatim>\<open>result and result[0] == 1\<close> on what \<^verbatim>\<open>fetchone\<close> returned.\<close>

fun probe_ok :: "row option \<Rightarrow> bool" where
  "probe_ok None = False"
| "probe_ok (Some []) = False"
| "probe_ok (Some (v # vs)) = py_eq_1 v"

section \<open>The manager's operations\<close>

text \<open>
  \<^verbatim>\<open>DatabaseManager.connect\<close>, the body of its \<^verbatim>\<open>try\<close> (lines 94 to 116). A stored
  connection whose \<^verbatim>\<open>closed\<close> attribute is zero ends the call at once. Otherwise the
  new connection object is stored in \<^verbatim>\<open>self.connection\<close> as soon as
  \<^verbatim>\<open>psycopg2.connect\<close> returns, before autocommit is set and the probe runs.
\<close>

definition connect_body :: "pylib \<Rightarrow> environ \<Rightarrow> 'w driver \<Rightarrow> ('w, bool) action" where
  "connect_body lib env drv s =
    (if connection_open drv s then return True s
     else
       and_then (\<lambda>s. (get_connection_params lib env, s)) (\<lambda>conn_params.
       and_then (call (Connect conn_params) (drv_connect drv conn_params)) (\<lambda>h.
       and_then (\<lambda>s. return () (s\<lparr>connection := Some h\<rparr>)) (\<lambda>_.
       and_then (call (SetAutocommit h True) (drv_set_autocommit drv h True)) (\<lambda>_.
       and_then (connection_cursor drv) (\<lambda>cursor.
       and_then (call (Execute cursor ''SELECT 1'' None)
                   (drv_execute drv cursor ''SELECT 1'' None)) (\<lambda>_.
       and_then (call (Fetchone cursor) (drv_fetchone drv cursor)) (\<lambda>result.
       and_then (call (CursorClose cursor) (drv_cursor_close drv cursor)) (\<lambda>_.
       return (probe_ok result))))))))) s)"

text \<open>
  \<^verbatim>\<open>DatabaseManager.connect\<close> (lines 91 to 129): the three \<^verbatim>\<open>except\<close> clauses, tried
  in the source's order. Each sets \<^verbatim>\<open>self.connection = None\<close> and returns \<^verbatim>\<open>False\<close>; they
  differ in the logged text only.
\<close>

definition connect :: "pylib \<Rightarrow> environ \<Rightarrow> 'w driver \<Rightarrow> ('w, bool) action" where
  "connect lib env drv s =
    (case connect_body lib env drv s of
       (Inr b, s') \<Rightarrow> (Inr b, s')
     | (Inl e, s') \<Rightarrow>
         if is_OperationalError e then (Inr False, s'\<lparr>connection := None\<rparr>)
         else if is_psycopg2_Error e then (Inr False, s'\<lparr>connection := None\<rparr>)
         else (Inr False, s'\<lparr>connection := None\<rparr>))"

text \<open>
  \<^verbatim>\<open>DatabaseManager.is_connected\<close> (lines 131 to 144). The fetched row is not looked at;
  \<^verbatim>\<open>self.connection\<close> is never assigned.
\<close>

definition is_connected_body :: "'w driver \<Rightarrow> ('w, bool) action" where
  "is_connected_body drv s =
    (if \<not> connection_open drv s then return False s
     else
       and_then (connection_cursor drv) (\<lambda>cursor.
       and_then (call (Execute cursor ''SELECT 1'' None)
                   (drv_execute drv cursor ''SELECT 1'' None)) (\<lambda>_.
       and_then (call (Fetchone cursor) (drv_fetchone drv cursor)) (\<lambda>_.
       and_then (call (CursorClose cursor) (drv_cursor_close drv cursor)) (\<lambda>_.
       return True)))) s)"

definition is_connected :: "'w driver \<Rightarrow> ('w, bool) action" where
  "is_connected drv s =
    (case is_connected_body drv s of
       (Inr b, s') \<Rightarrow> (Inr b, s')
     | (Inl e, s') \<Rightarrow> (Inr False, s'))"

text \<open>
  Python's \<^verbatim>\<open>str.strip\<close>: the characters it removes from both ends are those for which
  \<^verbatim>\<open>str.isspace\<close> holds. Below 256 these are the code points 9 to 13, 28 to 32, 133 and 160.
\<close>

definition is_space :: "char \<Rightarrow> bool" where
  "is_space c = ((of_char c :: nat) \<in> {9, 10, 11, 12, 13, 28, 29, 30, 31, 32, 133, 160})"

definition str_strip :: "string \<Rightarrow> string" where
  "str_strip s = rev (dropWhile is_space (rev (dropWhile is_space s)))"

text \<open>
  Python's \<^verbatim>\<open>str.upper\<close>. It maps one character to one or two code points, and for two
  characters below 256 to a code point above 255, so the result is a list of code points:
  the letters \<^verbatim>\<open>a\<close> to \<^verbatim>\<open>z\<close> and the code points 224 to 254 except 247 move down by 32,
  181 becomes 924, 223 becomes the two letters \<^verbatim>\<open>SS\<close>, 255 becomes 376, and every other
  character stays.
\<close>

definition upper_char :: "char \<Rightarrow> nat list" where
  "upper_char c =
    (let n = (of_char c :: nat)
     in if 97 \<le> n \<and> n \<le> 122 then [n - 32]
        else if n = 181 then [924]
        else if n = 223 then [83, 83]
        else if 224 \<le> n \<and> n \<le> 254 \<and> n \<noteq> 247 then [n - 32]
        else if n = 255 then [376]
        else [n])"

definition str_upper :: "string \<Rightarrow> nat list" where
  "str_upper s = concat (map upper_char s)"

text \<open>\<^verbatim>\<open>startswith\<close> with an argument below 256, on a list of code points.\<close>

definition str_startswith :: "nat list \<Rightarrow> string \<Rightarrow> bool" where
  "str_startswith s p = (take (length p) s = map of_char p)"

text \<open>\<^verbatim>\<open>query.strip().upper().startswith('SELECT')\<close>.\<close>

definition is_select :: "string \<Rightarrow> bool" where
  "is_select query = str_startswith (str_upper (str_strip query)) ''SELECT''"




text \<open>
  \<^verbatim>\<open>DatabaseManager.execute_query\<close> (lines 146 to 168), in two parts. Lines 149 to 152:
  one call of \<^verbatim>\<open>is_connected\<close>, and one call of \<^verbatim>\<open>connect\<close> when it answered
  \<^verbatim>\<open>False\<close>.
\<close>

definition ensure_connected :: "pylib \<Rightarrow> environ \<Rightarrow> 'w driver \<Rightarrow> ('w, unit) action" where
  "ensure_connected lib env drv =
    and_then (is_connected drv) (\<lambda>connected.
      if \<not> connected then
        and_then (connect lib env drv) (\<lambda>reconnected.
          if \<not> reconnected then raise (OperationalError ''Failed to reconnect to database'')
          else return ())
      else return ())"

text \<open>
  Lines 154 to 164: the statement goes to the driver with its bind parameters beside it.
  The result is \<open>Some rows\<close> for the list \<^verbatim>\<open>fetchall\<close> returned and \<open>None\<close> for Python's
  \<^verbatim>\<open>None\<close>.
\<close>

definition run_statement ::
  "'w driver \<Rightarrow> string \<Rightarrow> pyval list option \<Rightarrow> ('w, row list option) action"
where
  "run_statement drv query params =
    and_then (connection_cursor drv) (\<lambda>cursor.
    and_then (call (Execute cursor query params) (drv_execute drv cursor query params)) (\<lambda>_.
    if is_select query then
      and_then (call (Fetchall cursor) (drv_fetchall drv cursor)) (\<lambda>results.
      and_then (call (CursorClose cursor) (drv_cursor_close drv cursor)) (\<lambda>_.
      return (Some results)))
    else
      and_then (call (CursorClose cursor) (drv_cursor_close drv cursor)) (\<lambda>_.
      return None)))"

text \<open>
  The whole method. Its \<^verbatim>\<open>except Exception\<close> clause logs and re-raises, so it changes no
  result.
\<close>

definition execute_query ::
  "pylib \<Rightarrow> environ \<Rightarrow> 'w driver \<Rightarrow> string \<Rightarrow> pyval list option \<Rightarrow> ('w, row list option) action"
where
  "execute_query lib env drv query params =
    and_then (ensure_connected lib env drv) (\<lambda>_. run_statement drv query params)"

text \<open>
  \<^verbatim>\<open>DatabaseManager.close\<close> (lines 170 to 174). There is no \<^verbatim>\<open>try\<close>: an exception of
  the driver's \<^verbatim>\<open>close\<close> leaves the method. \<^verbatim>\<open>self.connection\<close> is not assigned.
\<close>

definition close :: "'w driver \<Rightarrow> ('w, unit) action" where
  "close drv s =
    (if connection_open drv s then
       (case connection s of
          None \<Rightarrow> return () s
        | Some h \<Rightarrow> call (Close h) (drv_close drv h) s)
     else return () s)"

section \<open>A simulated runtime\<close>

text \<open>
  One concrete library and one concrete driver, to run the operations on. The builtin
  \<open>sim_int\<close> reads plain decimal numerals; the decoder \<open>sim_json_loads\<close> knows the three
  secrets used below and answers every other text as \<^verbatim>\<open>json.loads\<close> answers a text that
  is wrong at its first character.
\<close>

definition is_digit :: "char \<Rightarrow> bool" where
  "is_digit c = (48 \<le> (of_char c :: nat) \<and> (of_char c :: nat) \<le> 57)"

definition sim_int :: "string \<Rightarrow> int option" where
  "sim_int s =
    (if s \<noteq> [] \<and> list_all is_digit s
     then Some (foldl (\<lambda>a c. 10 * a + int ((of_char c :: nat) - 48)) 0 s)
     else None)"

definition secret_u_p :: string where
  \<open>secret_u_p = ''{"username":"u","password":"p"}''\<close>

definition secret_only_username :: string where
  \<open>secret_only_username = ''{"username":"u"}''\<close>

definition secret_only_password :: string where
  \<open>secret_only_password = ''{"password":"p"}''\<close>

definition sim_json_loads :: "string \<Rightarrow> exn + json" where
  "sim_json_loads s =
    (if s = secret_u_p then Inr (JObj [(''username'', JStr ''u''), (''password'', JStr ''p'')])
     else if s = secret_only_username then Inr (JObj [(''username'', JStr ''u'')])
     else if s = secret_only_password then Inr (JObj [(''password'', JStr ''p'')])
     else Inl (JSONDecodeError ''Expecting value: line 1 column 1 (char 0)''))"

definition sim_lib :: pylib where
  "sim_lib = \<lparr>py_int = sim_int, json_loads = sim_json_loads\<rparr>"

text \<open>
  The simulated world: whether the server answers, the row it returns for the probe, the
  rows of its one table, the connection objects whose \<^verbatim>\<open>closed\<close> attribute is set, the
  number of connection objects made so far, and the result set waiting on the cursor
  (\<open>None\<close> after a statement that returns no rows).
\<close>

record sim_world =
  server_up :: bool
  probe_row :: "row option"
  table_rows :: "row list"
  closed_handles :: "handle list"
  issued :: nat
  pending :: "row list option"

definition sim_connect :: "conn_params \<Rightarrow> sim_world \<Rightarrow> (exn + handle) \<times> sim_world" where
  "sim_connect ps w =
    (if server_up w then (Inr (issued w), w\<lparr>issued := Suc (issued w)\<rparr>)
     else (Inl (OperationalError ''could not connect to server''), w))"

definition sim_closed :: "sim_world \<Rightarrow> handle \<Rightarrow> bool" where
  "sim_closed w h = (h \<in> set (closed_handles w))"

definition sim_cursor :: "handle \<Rightarrow> sim_world \<Rightarrow> (exn + cursor) \<times> sim_world" where
  "sim_cursor h w =
    (if sim_closed w h then (Inl (Psycopg2Error ''connection already closed''), w)
     else (Inr h, w))"

definition sim_execute ::
  "cursor \<Rightarrow> string \<Rightarrow> pyval list option \<Rightarrow> sim_world \<Rightarrow> (exn + unit) \<times> sim_world"
where
  "sim_execute c q ps w =
    (if \<not> server_up w then
       (Inl (OperationalError ''server closed the connection unexpectedly''),
        w\<lparr>closed_handles := c # closed_handles w\<rparr>)
     else if q = ''SELECT 1'' then
       (Inr (), w\<lparr>pending := Some (case probe_row w of None \<Rightarrow> [] | Some r \<Rightarrow> [r])\<rparr>)
     else if is_select q then (Inr (), w\<lparr>pending := Some (table_rows w)\<rparr>)
     else (Inr (), w\<lparr>pending := None\<rparr>))"

definition sim_fetchone :: "cursor \<Rightarrow> sim_world \<Rightarrow> (exn + row option) \<times> sim_world" where
  "sim_fetchone c w =
    (case pending w of
       None \<Rightarrow> (Inl (Psycopg2Error ''no results to fetch''), w)
     | Some [] \<Rightarrow> (Inr None, w)
     | Some (r # rs) \<Rightarrow> (Inr (Some r), w\<lparr>pending := Some rs\<rparr>))"

definition sim_fetchall :: "cursor \<Rightarrow> sim_world \<Rightarrow> (exn + row list) \<times> sim_world" where
  "sim_fetchall c w =
    (case pending w of
       None \<Rightarrow> (Inl (Psycopg2Error ''no results to fetch''), w)
     | Some rs \<Rightarrow> (Inr rs, w\<lparr>pending := Some []\<rparr>))"

definition sim_close :: "handle \<Rightarrow> sim_world \<Rightarrow> (exn + unit) \<times> sim_world" where
  "sim_close h w = (Inr (), w\<lparr>closed_handles := h # closed_handles w\<rparr>)"

definition sim_driver :: "sim_world driver" where
  "sim_driver =
    \<lparr>drv_connect = sim_connect,
     drv_closed = sim_closed,
     drv_set_autocommit = (\<lambda>h b w. (Inr (), w)),
     drv_cursor = sim_cursor,
     drv_execute = sim_execute,
     drv_fetchone = sim_fetchone,
     drv_fetchall = sim_fetchall,
     drv_cursor_close = (\<lambda>c w. (Inr (), w)),
     drv_close = sim_close\<rparr>"

text \<open>
  Worlds: a healthy server whose table holds two rows, a server that is down, and a server
  that answers the probe with the row \<open>(0,)\<close>.
\<close>

definition healthy_world :: sim_world where
  "healthy_world =
    \<lparr>server_up = True, probe_row = Some [PyInt 1],
     table_rows = [[PyInt 1, PyStr ''a''], [PyInt 2, PyStr ''b'']],
     closed_handles = [], issued = 0, pending = None\<rparr>"

definition down_world :: sim_world where
  "down_world = healthy_world\<lparr>server_up := False\<rparr>"

definition wrong_probe_world :: sim_world where
  "wrong_probe_world = healthy_world\<lparr>probe_row := Some [PyInt 0]\<rparr>"

definition empty_probe_world :: sim_world where
  "empty_probe_world = healthy_world\<lparr>probe_row := None\<rparr>"

text \<open>
  Drivers whose server accepts the connection and then fails at one step: \<open>failing_driver k\<close>
  raises when autocommit is set (\<open>k = 1\<close>), when the cursor is made (2), when a statement
  is executed (3), when a row is fetched (4), when the cursor is closed (5).
\<close>

definition failing_driver :: "nat \<Rightarrow> sim_world driver" where
  "failing_driver k =
    sim_driver
      \<lparr>drv_set_autocommit :=
         (\<lambda>h b w. if k = 1 then (Inl (Psycopg2Error ''set_session failed''), w)
                  else (Inr (), w)),
       drv_cursor :=
         (\<lambda>h w. if k = 2 then (Inl (Psycopg2Error ''cursor failed''), w) else sim_cursor h w),
       drv_execute :=
         (\<lambda>c q ps w. if k = 3 then (Inl (OperationalError ''connection reset''), w)
                     else sim_execute c q ps w),
       drv_fetchone :=
         (\<lambda>c w. if k = 4 then (Inl (OperationalError ''connection reset''), w)
                 else sim_fetchone c w),
       drv_cursor_close :=
         (\<lambda>c w. if k = 5 then (Inl (Psycopg2Error ''cursor close failed''), w)
                 else (Inr (), w))\<rparr>"

text \<open>Managers: a new one (\<^verbatim>\<open>__init__\<close>), and one that holds the open connection 0.\<close>

definition new_manager :: "'w \<Rightarrow> 'w manager" where
  "new_manager w = \<lparr>connection = None, world = w, trace = []\<rparr>"

definition holding_manager :: "sim_world \<Rightarrow> sim_world manager" where
  "holding_manager w = \<lparr>connection = Some 0, world = w\<lparr>issued := 1\<rparr>, trace = []\<rparr>"

text \<open>Environments.\<close>

definition env_example :: environ where
  "env_example = [''DATABASE_URL'' \<mapsto> secret_u_p, ''DATABASE_HOST'' \<mapsto> ''db.example'']"

definition env_bad_port :: environ where
  "env_bad_port = env_example(''DATABASE_PORT'' \<mapsto> ''abc'')"

text \<open>The parameters derived from \<open>env_example\<close>.\<close>

definition example_params :: conn_params where
  "example_params =
    \<lparr>host = ''db.example'', database = ''postgres'', user = JStr ''u'',
     password = JStr ''p'', port = 5432, connect_timeout = 10,
     application_name = ''fastapi-stage4v1''\<rparr>"

text \<open>The driver calls a run has added to the record, and counts over them.\<close>

definition new_events :: "'w manager \<Rightarrow> 'w manager \<Rightarrow> event list" where
  "new_events s s' = drop (length (trace s)) (trace s')"

fun is_probe :: "event \<Rightarrow> bool" where
  "is_probe (Execute c q ps r) = (q = ''SELECT 1'' \<and> ps = None)"
| "is_probe _ = False"

fun is_connect :: "event \<Rightarrow> bool" where
  "is_connect (Connect ps r) = True"
| "is_connect _ = False"

fun is_execute :: "event \<Rightarrow> bool" where
  "is_execute (Execute c q ps r) = True"
| "is_execute _ = False"

text \<open>A statement sent to the server that is not the probe \<^verbatim>\<open>SELECT 1\<close>.\<close>

fun is_other_statement :: "event \<Rightarrow> bool" where
  "is_other_statement (Execute c q ps r) = (\<not> (q = ''SELECT 1'' \<and> ps = None))"
| "is_other_statement _ = False"

fun is_close :: "event \<Rightarrow> bool" where
  "is_close (Close h r) = True"
| "is_close _ = False"

section \<open>Facts about the operations\<close>

lemmas action_defs = and_then_def call_def return_def raise_def connection_cursor_def

lemmas sim_defs = sim_lib_def sim_int_def is_digit_def sim_json_loads_def secret_u_p_def
  secret_only_username_def secret_only_password_def sim_driver_def sim_connect_def
  sim_closed_def sim_cursor_def sim_execute_def sim_fetchone_def sim_fetchall_def
  sim_close_def healthy_world_def down_world_def wrong_probe_world_def empty_probe_world_def
  failing_driver_def new_manager_def
  holding_manager_def env_example_def env_bad_port_def

subsection \<open>connect\<close>

lemma connect_open: "connection_open drv s \<Longrightarrow> connect lib env drv s = (Inr True, s)"
  by (simp add: connect_def connect_body_def return_def)

lemma connect_returns: "\<exists>b s'. connect lib env drv s = (Inr b, s')"
  by (auto simp: connect_def split: prod.splits sum.splits)

lemma connect_body_raise:
  "connect_body lib env drv s = (Inl e, s') \<Longrightarrow>
   connect lib env drv s = (Inr False, s'\<lparr>connection := None\<rparr>)"
  by (simp add: connect_def)

lemma connect_body_result:
  "connect_body lib env drv s = (Inr b, s') \<Longrightarrow> connect lib env drv s = (Inr b, s')"
  by (simp add: connect_def)

lemma connect_params_fail:
  "\<not> connection_open drv s \<Longrightarrow> get_connection_params lib env = Inl e \<Longrightarrow>
   connect lib env drv s = (Inr False, s\<lparr>connection := None\<rparr>)"
  by (simp add: connect_def connect_body_def and_then_def)

text \<open>When the body of the \<^verbatim>\<open>try\<close> returns, a connection object is stored.\<close>

lemma connect_body_Inr_connection:
  "connect_body lib env drv s = (Inr b, s') \<Longrightarrow> connection s' \<noteq> None"
  by (auto simp: connect_body_def action_defs connection_open_def
      split: prod.splits sum.splits option.splits if_splits)

text \<open>
  One call makes at most one connection attempt and one probe, sends no other statement
  and closes nothing.
\<close>

lemma connect_body_events:
  "\<exists>evs. trace (snd (connect_body lib env drv s)) = trace s @ evs
     \<and> length (filter is_connect evs) \<le> 1 \<and> length (filter is_probe evs) \<le> 1
     \<and> filter is_other_statement evs = [] \<and> filter is_close evs = []"
  by (auto simp: connect_body_def action_defs
      split: prod.splits sum.splits option.splits if_splits)

lemma connect_trace:
  "trace (snd (connect lib env drv s)) = trace (snd (connect_body lib env drv s))"
  by (auto simp: connect_def split: prod.splits sum.splits)

lemma connect_events:
  "\<exists>evs. trace (snd (connect lib env drv s)) = trace s @ evs
     \<and> length (filter is_connect evs) \<le> 1 \<and> length (filter is_probe evs) \<le> 1
     \<and> filter is_other_statement evs = [] \<and> filter is_close evs = []"
  using connect_body_events [of lib env drv s] by (simp add: connect_trace)

lemma probe_ok_row: "probe_ok r \<Longrightarrow> \<exists>v vs. r = Some (v # vs) \<and> py_eq_1 v"
  by (cases r rule: probe_ok.cases) auto

lemma connect_body_True:
  "connect_body lib env drv s = (Inr True, s') \<Longrightarrow>
   connection_open drv s \<or>
   (\<exists>c v vs. Fetchone c (Inr (Some (v # vs))) \<in> set (new_events s s') \<and> py_eq_1 v)"
  by (auto simp: connect_body_def action_defs new_events_def dest!: probe_ok_row
      split: prod.splits sum.splits option.splits if_splits)

subsection \<open>is_connected\<close>

lemma is_connected_returns: "\<exists>b s'. is_connected drv s = (Inr b, s')"
  by (auto simp: is_connected_def split: prod.splits sum.splits)

lemma is_connected_state: "snd (is_connected drv s) = snd (is_connected_body drv s)"
  by (auto simp: is_connected_def split: prod.splits sum.splits)

lemma is_connected_body_connection:
  "connection (snd (is_connected_body drv s)) = connection s"
  by (auto simp: is_connected_body_def action_defs
      split: prod.splits sum.splits option.splits if_splits)

lemma is_connected_body_events:
  "\<exists>evs. trace (snd (is_connected_body drv s)) = trace s @ evs
     \<and> filter is_connect evs = [] \<and> filter is_other_statement evs = []
     \<and> filter is_close evs = []"
  by (auto simp: is_connected_body_def action_defs
      split: prod.splits sum.splits option.splits if_splits)

lemma is_connected_events:
  "\<exists>evs. trace (snd (is_connected drv s)) = trace s @ evs
     \<and> filter is_connect evs = [] \<and> filter is_other_statement evs = []
     \<and> filter is_close evs = []"
  using is_connected_body_events [of drv s] by (simp add: is_connected_state)

subsection \<open>execute_query and close\<close>

lemma ensure_connected_connection:
  "connection (snd (ensure_connected lib env drv s)) = connection s
   \<or> connection (snd (ensure_connected lib env drv s))
       = connection (snd (connect lib env drv (snd (is_connected drv s))))"
proof -
  obtain b s1 where a: "is_connected drv s = (Inr b, s1)"
    using is_connected_returns by blast
  have k: "connection s1 = connection s"
    using a is_connected_body_connection [of drv s] is_connected_state [of drv s] by simp
  obtain b2 s2 where c: "connect lib env drv s1 = (Inr b2, s2)"
    using connect_returns by blast
  show ?thesis using a c k
    by (simp add: ensure_connected_def and_then_def return_def raise_def)
qed

lemma run_statement_connection:
  "connection (snd (run_statement drv query params s)) = connection s"
  by (auto simp: run_statement_def action_defs
      split: prod.splits sum.splits option.splits if_splits)

lemma close_connection: "connection (snd (close drv s)) = connection s"
  by (auto simp: close_def action_defs split: prod.splits option.splits)

lemma close_not_open: "\<not> connection_open drv s \<Longrightarrow> close drv s = (Inr (), s)"
  by (simp add: close_def return_def)

subsection \<open>Runs on the simulated runtime\<close>

lemma sim_params_example:
  "get_connection_params sim_lib env_example
     = Inr \<lparr>host = ''db.example'', database = ''postgres'', user = JStr ''u'',
            password = JStr ''p'', port = 5432, connect_timeout = 10,
            application_name = ''fastapi-stage4v1''\<rparr>"
  by (simp add: get_connection_params_def getenv_def sim_defs)

lemma sim_connect_healthy:
  "connect sim_lib env_example sim_driver (new_manager healthy_world)
     = (Inr True,
        \<lparr>connection = Some 0,
         world = healthy_world\<lparr>issued := 1, pending := Some []\<rparr>,
         trace = [Connect \<lparr>host = ''db.example'', database = ''postgres'', user = JStr ''u'',
                     password = JStr ''p'', port = 5432, connect_timeout = 10,
                     application_name = ''fastapi-stage4v1''\<rparr> (Inr 0),
                  SetAutocommit 0 True (Inr ()), Cursor 0 (Inr 0),
                  Execute 0 ''SELECT 1'' None (Inr ()),
                  Fetchone 0 (Inr (Some [PyInt 1])), CursorClose 0 (Inr ())]\<rparr>)"
  by (simp add: connect_def connect_body_def action_defs connection_open_def
      get_connection_params_def getenv_def sim_defs)

lemma sim_is_connected_body_down:
  "is_connected_body sim_driver (holding_manager down_world)
     = (Inl (OperationalError ''server closed the connection unexpectedly''),
        \<lparr>connection = Some 0,
         world = down_world\<lparr>issued := 1, closed_handles := [0]\<rparr>,
         trace = [Cursor 0 (Inr 0),
                  Execute 0 ''SELECT 1'' None
                    (Inl (OperationalError ''server closed the connection unexpectedly''))]\<rparr>)"
  by (simp add: is_connected_body_def action_defs connection_open_def sim_defs)

subsection \<open>connect, driver call by driver call\<close>

text \<open>
  What \<^verbatim>\<open>connect\<close> returns and leaves behind when the driver raises at each of its
  calls in turn, and what it returns when every call succeeds.
\<close>

lemma connect_raises_at_connect:
  "\<not> connection_open drv s \<Longrightarrow> get_connection_params lib env = Inr ps \<Longrightarrow>
   drv_connect drv ps (world s) = (Inl e, w1) \<Longrightarrow>
   connect lib env drv s
     = (Inr False, s\<lparr>connection := None, world := w1,
                      trace := trace s @ [Connect ps (Inl e)]\<rparr>)"
  by (simp add: connect_def connect_body_def action_defs)

lemma connect_raises_at_autocommit:
  "\<not> connection_open drv s \<Longrightarrow> get_connection_params lib env = Inr ps \<Longrightarrow>
   drv_connect drv ps (world s) = (Inr h, w1) \<Longrightarrow>
   drv_set_autocommit drv h True w1 = (Inl e, w2) \<Longrightarrow>
   connect lib env drv s
     = (Inr False, s\<lparr>connection := None, world := w2,
                      trace := trace s @ [Connect ps (Inr h), SetAutocommit h True (Inl e)]\<rparr>)"
  by (simp add: connect_def connect_body_def action_defs)

lemma connect_raises_at_cursor:
  "\<not> connection_open drv s \<Longrightarrow> get_connection_params lib env = Inr ps \<Longrightarrow>
   drv_connect drv ps (world s) = (Inr h, w1) \<Longrightarrow>
   drv_set_autocommit drv h True w1 = (Inr (), w2) \<Longrightarrow>
   drv_cursor drv h w2 = (Inl e, w3) \<Longrightarrow>
   connect lib env drv s
     = (Inr False, s\<lparr>connection := None, world := w3,
                      trace := trace s @ [Connect ps (Inr h), SetAutocommit h True (Inr ()),
                                          Cursor h (Inl e)]\<rparr>)"
  by (simp add: connect_def connect_body_def action_defs)

lemma connect_raises_at_execute:
  "\<not> connection_open drv s \<Longrightarrow> get_connection_params lib env = Inr ps \<Longrightarrow>
   drv_connect drv ps (world s) = (Inr h, w1) \<Longrightarrow>
   drv_set_autocommit drv h True w1 = (Inr (), w2) \<Longrightarrow>
   drv_cursor drv h w2 = (Inr c, w3) \<Longrightarrow>
   drv_execute drv c ''SELECT 1'' None w3 = (Inl e, w4) \<Longrightarrow>
   connect lib env drv s
     = (Inr False, s\<lparr>connection := None, world := w4,
                      trace := trace s @ [Connect ps (Inr h), SetAutocommit h True (Inr ()),
                                          Cursor h (Inr c),
                                          Execute c ''SELECT 1'' None (Inl e)]\<rparr>)"
  by (simp add: connect_def connect_body_def action_defs)

lemma connect_raises_at_fetchone:
  "\<not> connection_open drv s \<Longrightarrow> get_connection_params lib env = Inr ps \<Longrightarrow>
   drv_connect drv ps (world s) = (Inr h, w1) \<Longrightarrow>
   drv_set_autocommit drv h True w1 = (Inr (), w2) \<Longrightarrow>
   drv_cursor drv h w2 = (Inr c, w3) \<Longrightarrow>
   drv_execute drv c ''SELECT 1'' None w3 = (Inr (), w4) \<Longrightarrow>
   drv_fetchone drv c w4 = (Inl e, w5) \<Longrightarrow>
   connect lib env drv s
     = (Inr False, s\<lparr>connection := None, world := w5,
                      trace := trace s @ [Connect ps (Inr h), SetAutocommit h True (Inr ()),
                                          Cursor h (Inr c),
                                          Execute c ''SELECT 1'' None (Inr ()),
                                          Fetchone c (Inl e)]\<rparr>)"
  by (simp add: connect_def connect_body_def action_defs)

lemma connect_raises_at_cursor_close:
  "\<not> connection_open drv s \<Longrightarrow> get_connection_params lib env = Inr ps \<Longrightarrow>
   drv_connect drv ps (world s) = (Inr h, w1) \<Longrightarrow>
   drv_set_autocommit drv h True w1 = (Inr (), w2) \<Longrightarrow>
   drv_cursor drv h w2 = (Inr c, w3) \<Longrightarrow>
   drv_execute drv c ''SELECT 1'' None w3 = (Inr (), w4) \<Longrightarrow>
   drv_fetchone drv c w4 = (Inr r, w5) \<Longrightarrow>
   drv_cursor_close drv c w5 = (Inl e, w6) \<Longrightarrow>
   connect lib env drv s
     = (Inr False, s\<lparr>connection := None, world := w6,
                      trace := trace s @ [Connect ps (Inr h), SetAutocommit h True (Inr ()),
                                          Cursor h (Inr c),
                                          Execute c ''SELECT 1'' None (Inr ()),
                                          Fetchone c (Inr r), CursorClose c (Inl e)]\<rparr>)"
  by (simp add: connect_def connect_body_def action_defs)

lemma connect_probe_completes:
  "\<not> connection_open drv s \<Longrightarrow> get_connection_params lib env = Inr ps \<Longrightarrow>
   drv_connect drv ps (world s) = (Inr h, w1) \<Longrightarrow>
   drv_set_autocommit drv h True w1 = (Inr (), w2) \<Longrightarrow>
   drv_cursor drv h w2 = (Inr c, w3) \<Longrightarrow>
   drv_execute drv c ''SELECT 1'' None w3 = (Inr (), w4) \<Longrightarrow>
   drv_fetchone drv c w4 = (Inr r, w5) \<Longrightarrow>
   drv_cursor_close drv c w5 = (Inr (), w6) \<Longrightarrow>
   fst (connect lib env drv s) = Inr (probe_ok r)"
  by (simp add: connect_def connect_body_def action_defs)

subsection \<open>is_connected, driver call by driver call\<close>

lemma is_connected_not_open:
  "\<not> connection_open drv s \<Longrightarrow> is_connected drv s = (Inr False, s)"
  by (simp add: is_connected_def is_connected_body_def return_def)

lemma is_connected_raises_at_cursor:
  "connection s = Some h \<Longrightarrow> \<not> drv_closed drv (world s) h \<Longrightarrow>
   drv_cursor drv h (world s) = (Inl e, w1) \<Longrightarrow>
   is_connected drv s
     = (Inr False, s\<lparr>world := w1, trace := trace s @ [Cursor h (Inl e)]\<rparr>)"
  by (simp add: is_connected_def is_connected_body_def action_defs connection_open_def)

lemma is_connected_raises_at_execute:
  "connection s = Some h \<Longrightarrow> \<not> drv_closed drv (world s) h \<Longrightarrow>
   drv_cursor drv h (world s) = (Inr c, w1) \<Longrightarrow>
   drv_execute drv c ''SELECT 1'' None w1 = (Inl e, w2) \<Longrightarrow>
   is_connected drv s
     = (Inr False, s\<lparr>world := w2,
                      trace := trace s @ [Cursor h (Inr c),
                                          Execute c ''SELECT 1'' None (Inl e)]\<rparr>)"
  by (simp add: is_connected_def is_connected_body_def action_defs connection_open_def)

lemma is_connected_raises_at_fetchone:
  "connection s = Some h \<Longrightarrow> \<not> drv_closed drv (world s) h \<Longrightarrow>
   drv_cursor drv h (world s) = (Inr c, w1) \<Longrightarrow>
   drv_execute drv c ''SELECT 1'' None w1 = (Inr (), w2) \<Longrightarrow>
   drv_fetchone drv c w2 = (Inl e, w3) \<Longrightarrow>
   is_connected drv s
     = (Inr False, s\<lparr>world := w3,
                      trace := trace s @ [Cursor h (Inr c),
                                          Execute c ''SELECT 1'' None (Inr ()),
                                          Fetchone c (Inl e)]\<rparr>)"
  by (simp add: is_connected_def is_connected_body_def action_defs connection_open_def)

lemma is_connected_raises_at_cursor_close:
  "connection s = Some h \<Longrightarrow> \<not> drv_closed drv (world s) h \<Longrightarrow>
   drv_cursor drv h (world s) = (Inr c, w1) \<Longrightarrow>
   drv_execute drv c ''SELECT 1'' None w1 = (Inr (), w2) \<Longrightarrow>
   drv_fetchone drv c w2 = (Inr r, w3) \<Longrightarrow>
   drv_cursor_close drv c w3 = (Inl e, w4) \<Longrightarrow>
   is_connected drv s
     = (Inr False, s\<lparr>world := w4,
                      trace := trace s @ [Cursor h (Inr c),
                                          Execute c ''SELECT 1'' None (Inr ()),
                                          Fetchone c (Inr r), CursorClose c (Inl e)]\<rparr>)"
  by (simp add: is_connected_def is_connected_body_def action_defs connection_open_def)

lemma is_connected_probe_completes:
  "connection s = Some h \<Longrightarrow> \<not> drv_closed drv (world s) h \<Longrightarrow>
   drv_cursor drv h (world s) = (Inr c, w1) \<Longrightarrow>
   drv_execute drv c ''SELECT 1'' None w1 = (Inr (), w2) \<Longrightarrow>
   drv_fetchone drv c w2 = (Inr r, w3) \<Longrightarrow>
   drv_cursor_close drv c w3 = (Inr (), w4) \<Longrightarrow>
   is_connected drv s
     = (Inr True, s\<lparr>world := w4,
                     trace := trace s @ [Cursor h (Inr c),
                                         Execute c ''SELECT 1'' None (Inr ()),
                                         Fetchone c (Inr r), CursorClose c (Inr ())]\<rparr>)"
  by (simp add: is_connected_def is_connected_body_def action_defs connection_open_def)

subsection \<open>execute_query, branch by branch\<close>

lemma execute_query_connected:
  "is_connected drv s = (Inr True, s1) \<Longrightarrow>
   execute_query lib env drv query params s = run_statement drv query params s1"
  by (simp add: execute_query_def ensure_connected_def and_then_def return_def)

lemma execute_query_reconnected:
  "is_connected drv s = (Inr False, s1) \<Longrightarrow> connect lib env drv s1 = (Inr True, s2) \<Longrightarrow>
   execute_query lib env drv query params s = run_statement drv query params s2"
  by (simp add: execute_query_def ensure_connected_def and_then_def return_def)

lemma execute_query_not_reconnected:
  "is_connected drv s = (Inr False, s1) \<Longrightarrow> connect lib env drv s1 = (Inr False, s2) \<Longrightarrow>
   execute_query lib env drv query params s
     = (Inl (OperationalError ''Failed to reconnect to database''), s2)"
  by (simp add: execute_query_def ensure_connected_def and_then_def raise_def)

lemma run_statement_events:
  "\<exists>evs. trace (snd (run_statement drv query params s)) = trace s @ evs
     \<and> filter is_connect evs = []"
  by (auto simp: run_statement_def action_defs
      split: prod.splits sum.splits option.splits if_splits)

lemma ensure_connected_connects:
  "\<exists>evs. trace (snd (ensure_connected lib env drv s)) = trace s @ evs
     \<and> length (filter is_connect evs) \<le> 1"
proof -
  obtain b s1 where a: "is_connected drv s = (Inr b, s1)"
    using is_connected_returns by blast
  obtain evs1 where e1: "trace s1 = trace s @ evs1" "filter is_connect evs1 = []"
    using is_connected_events [of drv s] a by auto
  obtain b2 s2 where c: "connect lib env drv s1 = (Inr b2, s2)"
    using connect_returns by blast
  obtain evs2 where e2: "trace s2 = trace s1 @ evs2" "length (filter is_connect evs2) \<le> 1"
    using connect_events [of lib env drv s1] c by auto
  show ?thesis using a c e1 e2
    by (auto simp: ensure_connected_def and_then_def return_def raise_def)
qed

lemma execute_query_connects:
  "length (filter is_connect
     (new_events s (snd (execute_query lib env drv query params s)))) \<le> 1"
proof -
  obtain evs where e: "trace (snd (ensure_connected lib env drv s)) = trace s @ evs"
      "length (filter is_connect evs) \<le> 1"
    using ensure_connected_connects [of lib env drv s] by auto
  obtain evs' where e': "trace (snd (run_statement drv query params
        (snd (ensure_connected lib env drv s))))
      = trace (snd (ensure_connected lib env drv s)) @ evs'" "filter is_connect evs' = []"
    using run_statement_events [of drv query params "snd (ensure_connected lib env drv s)"]
    by auto
  show ?thesis using e e'
    by (auto simp: execute_query_def and_then_def new_events_def split: prod.splits sum.splits)
qed



subsection \<open>The SELECT test\<close>












subsection \<open>More runs on the simulated runtime\<close>

lemma sim_params_example': "get_connection_params sim_lib env_example = Inr example_params"
  by (simp add: sim_params_example example_params_def)

lemma new_manager_not_open: "\<not> connection_open drv (new_manager w)"
  by (simp add: connection_open_def new_manager_def)

lemma failing_driver_steps:
  shows fd_connect: "drv_connect (failing_driver k) ps healthy_world
           = (Inr 0, healthy_world\<lparr>issued := 1\<rparr>)"
    and fd_closed: "\<not> drv_closed (failing_driver k) (healthy_world\<lparr>issued := 1\<rparr>) 0"
    and fd_autocommit_raises: "drv_set_autocommit (failing_driver 1) 0 True w
           = (Inl (Psycopg2Error ''set_session failed''), w)"
    and fd_autocommit: "k \<noteq> 1 \<Longrightarrow> drv_set_autocommit (failing_driver k) 0 True w = (Inr (), w)"
    and fd_cursor_raises: "drv_cursor (failing_driver 2) 0 w
           = (Inl (Psycopg2Error ''cursor failed''), w)"
    and fd_cursor: "k \<noteq> 2 \<Longrightarrow> drv_cursor (failing_driver k) 0 (healthy_world\<lparr>issued := 1\<rparr>)
           = (Inr 0, healthy_world\<lparr>issued := 1\<rparr>)"
    and fd_execute_raises: "drv_execute (failing_driver 3) 0 q None w
           = (Inl (OperationalError ''connection reset''), w)"
    and fd_execute: "k \<noteq> 3 \<Longrightarrow>
           drv_execute (failing_driver k) 0 ''SELECT 1'' None (healthy_world\<lparr>issued := 1\<rparr>)
           = (Inr (), healthy_world\<lparr>issued := 1, pending := Some [[PyInt 1]]\<rparr>)"
    and fd_fetchone_raises: "drv_fetchone (failing_driver 4) 0 w
           = (Inl (OperationalError ''connection reset''), w)"
    and fd_fetchone: "k \<noteq> 4 \<Longrightarrow>
           drv_fetchone (failing_driver k) 0
             (healthy_world\<lparr>issued := 1, pending := Some [[PyInt 1]]\<rparr>)
           = (Inr (Some [PyInt 1]), healthy_world\<lparr>issued := 1, pending := Some []\<rparr>)"
    and fd_cursor_close_raises: "drv_cursor_close (failing_driver 5) 0 w
           = (Inl (Psycopg2Error ''cursor close failed''), w)"
  by (simp_all add: sim_defs)

lemma holding_manager_fields:
  "connection (holding_manager w) = Some 0"
  "world (holding_manager w) = w\<lparr>issued := 1\<rparr>"
  "trace (holding_manager w) = []"
  by (simp_all add: holding_manager_def)

lemma new_manager_fields:
  "connection (new_manager w) = None" "world (new_manager w) = w" "trace (new_manager w) = []"
  by (simp_all add: new_manager_def)

section \<open>Deriving the connection parameters\<close>

text \<open>
  Claim C4 as it is written fails: a configuration with a host and a well-formed secret
  whose \<^verbatim>\<open>DATABASE_PORT\<close> is the text \<^verbatim>\<open>abc\<close> yields no parameters, because the
  port is parsed before anything else and \<^verbatim>\<open>int\<close> raises.
\<close>

theorem get_connection_params_bad_port_counterexample:
  "env_bad_port ''DATABASE_HOST'' = Some ''db.example''
   \<and> env_bad_port ''DATABASE_URL'' = Some secret_u_p
   \<and> json_loads sim_lib secret_u_p
       = Inr (JObj [(''username'', JStr ''u''), (''password'', JStr ''p'')])
   \<and> get_connection_params sim_lib env_bad_port = Inl (IntValueError ''abc'')"
  by (simp add: get_connection_params_def getenv_def sim_defs)

text \<open>
  Claim C4, amended: for every configuration with a non-empty host, a non-empty secret
  that \<^verbatim>\<open>json.loads\<close> decodes to an object holding \<^verbatim>\<open>username\<close> and \<^verbatim>\<open>password\<close>, and a
  port text (\<^verbatim>\<open>DATABASE_PORT\<close>, or \<^verbatim>\<open>5432\<close> when unset) that \<^verbatim>\<open>int\<close> parses,
  \<^verbatim>\<open>get_connection_params\<close> succeeds. The user and the password are the secret's fields, the
  port is the parsed number, the database name is \<^verbatim>\<open>DATABASE_NAME\<close> or \<^verbatim>\<open>postgres\<close> when
  unset, the connect timeout is 10 and the application name is \<^verbatim>\<open>fastapi-stage4v1\<close>.
\<close>

theorem get_connection_params_succeeds:
  assumes "env ''DATABASE_HOST'' = Some h" and "h \<noteq> []"
    and "env ''DATABASE_URL'' = Some secret" and "secret \<noteq> []"
    and "json_loads lib secret = Inr (JObj kvs)"
    and "map_of kvs ''username'' = Some u" and "map_of kvs ''password'' = Some p"
    and "py_int lib (getenv env ''DATABASE_PORT'' ''5432'') = Some n"
  shows "get_connection_params lib env =
    Inr \<lparr>host = h, database = getenv env ''DATABASE_NAME'' ''postgres'', user = u,
         password = p, port = n, connect_timeout = 10,
         application_name = ''fastapi-stage4v1''\<rparr>"
  using assms by (simp add: get_connection_params_def getenv_def)

text \<open>
  The end-to-end scenario of claim C4 is an instance: the secret
  \<^verbatim>\<open>{"username":"u","password":"p"}\<close>, the host \<^verbatim>\<open>db.example\<close>, no \<^verbatim>\<open>DATABASE_PORT\<close>.
\<close>

theorem get_connection_params_succeeds_witness:
  "env_example ''DATABASE_HOST'' = Some ''db.example''
   \<and> env_example ''DATABASE_URL'' = Some secret_u_p
   \<and> env_example ''DATABASE_PORT'' = None
   \<and> get_connection_params sim_lib env_example =
       Inr \<lparr>host = ''db.example'', database = ''postgres'', user = JStr ''u'',
            password = JStr ''p'', port = 5432, connect_timeout = 10,
            application_name = ''fastapi-stage4v1''\<rparr>"
  using get_connection_params_succeeds [of env_example "''db.example''" secret_u_p sim_lib
      "[(''username'', JStr ''u''), (''password'', JStr ''p'')]" "JStr ''u''" "JStr ''p''" 5432]
  by (simp add: getenv_def sim_defs)

text \<open>
  Claim C5 as it is written fails: with neither host nor secret in the environment the
  error is the one for the missing secret, not the one for the missing host. The secret is
  tested first.
\<close>

theorem get_connection_params_empty_env_counterexample:
  "Map.empty ''DATABASE_HOST'' = (None :: string option)
   \<and> get_connection_params sim_lib Map.empty
       = Inl (ValueError ''DATABASE_URL secret not available from Kubernetes'')
   \<and> get_connection_params sim_lib Map.empty
       \<noteq> Inl (ValueError ''DATABASE_HOST not available from environment'')"
  by (simp add: get_connection_params_def getenv_def sim_defs)

text \<open>
  Claim C5, amended: once the port text has parsed, \<^verbatim>\<open>get_connection_params\<close> fails with
  the first diagnostic that applies, in this order: missing secret, when \<^verbatim>\<open>DATABASE_URL\<close>
  is unset or empty; missing host, when the secret is there and \<^verbatim>\<open>DATABASE_HOST\<close> is unset
  or empty; malformed secret, when \<^verbatim>\<open>json.loads\<close> raises \<^verbatim>\<open>JSONDecodeError\<close>; missing field,
  when the decoded object has no \<^verbatim>\<open>username\<close>, or has it and has no \<^verbatim>\<open>password\<close>.
\<close>

theorem get_connection_params_errors:
  assumes "py_int lib (getenv env ''DATABASE_PORT'' ''5432'') = Some n"
  shows
   "(getenv env ''DATABASE_URL'' [] = [] \<longrightarrow>
       get_connection_params lib env
         = Inl (ValueError ''DATABASE_URL secret not available from Kubernetes''))
  \<and> (getenv env ''DATABASE_URL'' [] \<noteq> [] \<and>
       (env ''DATABASE_HOST'' = None \<or> env ''DATABASE_HOST'' = Some []) \<longrightarrow>
       get_connection_params lib env
         = Inl (ValueError ''DATABASE_HOST not available from environment''))
  \<and> (getenv env ''DATABASE_URL'' [] \<noteq> [] \<and> env ''DATABASE_HOST'' = Some h \<and> h \<noteq> [] \<and>
       json_loads lib (getenv env ''DATABASE_URL'' []) = Inl (JSONDecodeError m) \<longrightarrow>
       get_connection_params lib env
         = Inl (ValueError (''Invalid JSON in DATABASE_URL secret: '' @ m)))
  \<and> (getenv env ''DATABASE_URL'' [] \<noteq> [] \<and> env ''DATABASE_HOST'' = Some h \<and> h \<noteq> [] \<and>
       json_loads lib (getenv env ''DATABASE_URL'' []) = Inr (JObj kvs) \<and>
       map_of kvs ''username'' = None \<longrightarrow>
       get_connection_params lib env
         = Inl (ValueError ''Secret missing required 'username' field''))
  \<and> (getenv env ''DATABASE_URL'' [] \<noteq> [] \<and> env ''DATABASE_HOST'' = Some h \<and> h \<noteq> [] \<and>
       json_loads lib (getenv env ''DATABASE_URL'' []) = Inr (JObj kvs) \<and>
       map_of kvs ''username'' \<noteq> None \<and> map_of kvs ''password'' = None \<longrightarrow>
       get_connection_params lib env
         = Inl (ValueError ''Secret missing required 'password' field''))"
  using assms by (auto simp: get_connection_params_def)

text \<open>Claim C5, amended: one environment for each of the five failures.\<close>

theorem get_connection_params_errors_witness:
  "get_connection_params sim_lib [''DATABASE_HOST'' \<mapsto> ''db.example'']
     = Inl (ValueError ''DATABASE_URL secret not available from Kubernetes'')
   \<and> get_connection_params sim_lib [''DATABASE_URL'' \<mapsto> secret_u_p]
     = Inl (ValueError ''DATABASE_HOST not available from environment'')
   \<and> get_connection_params sim_lib
        [''DATABASE_HOST'' \<mapsto> ''db.example'', ''DATABASE_URL'' \<mapsto> ''not json'']
     = Inl (ValueError (''Invalid JSON in DATABASE_URL secret: ''
                         @ ''Expecting value: line 1 column 1 (char 0)''))
   \<and> get_connection_params sim_lib
        [''DATABASE_HOST'' \<mapsto> ''db.example'', ''DATABASE_URL'' \<mapsto> secret_only_password]
     = Inl (ValueError ''Secret missing required 'username' field'')
   \<and> get_connection_params sim_lib
        [''DATABASE_HOST'' \<mapsto> ''db.example'', ''DATABASE_URL'' \<mapsto> secret_only_username]
     = Inl (ValueError ''Secret missing required 'password' field'')"
proof -
  have port: "\<And>env. env ''DATABASE_PORT'' = None \<Longrightarrow>
      py_int sim_lib (getenv env ''DATABASE_PORT'' ''5432'') = Some 5432"
    by (simp add: getenv_def sim_defs)
  note e1 = get_connection_params_errors
      [of sim_lib "[''DATABASE_HOST'' \<mapsto> ''db.example'']" 5432]
  note e2 = get_connection_params_errors
      [of sim_lib "[''DATABASE_URL'' \<mapsto> secret_u_p]" 5432]
  note e3 = get_connection_params_errors
      [of sim_lib "[''DATABASE_HOST'' \<mapsto> ''db.example'', ''DATABASE_URL'' \<mapsto> ''not json'']"
          5432 "''db.example''" "''Expecting value: line 1 column 1 (char 0)''"]
  note e4 = get_connection_params_errors
      [of sim_lib
          "[''DATABASE_HOST'' \<mapsto> ''db.example'', ''DATABASE_URL'' \<mapsto> secret_only_password]"
          5432 "''db.example''" _ "[(''password'', JStr ''p'')]"]
  note e5 = get_connection_params_errors
      [of sim_lib
          "[''DATABASE_HOST'' \<mapsto> ''db.example'', ''DATABASE_URL'' \<mapsto> secret_only_username]"
          5432 "''db.example''" _ "[(''username'', JStr ''u'')]"]
  have c1: "get_connection_params sim_lib [''DATABASE_HOST'' \<mapsto> ''db.example'']
     = Inl (ValueError ''DATABASE_URL secret not available from Kubernetes'')"
    using e1 port by (simp add: getenv_def)
  have c2: "get_connection_params sim_lib [''DATABASE_URL'' \<mapsto> secret_u_p]
     = Inl (ValueError ''DATABASE_HOST not available from environment'')"
    using e2 port by (simp add: getenv_def secret_u_p_def)
  have c3: "get_connection_params sim_lib
        [''DATABASE_HOST'' \<mapsto> ''db.example'', ''DATABASE_URL'' \<mapsto> ''not json'']
     = Inl (ValueError (''Invalid JSON in DATABASE_URL secret: ''
                         @ ''Expecting value: line 1 column 1 (char 0)''))"
    using e3 port by (simp add: getenv_def sim_defs)
  have c4: "get_connection_params sim_lib
        [''DATABASE_HOST'' \<mapsto> ''db.example'', ''DATABASE_URL'' \<mapsto> secret_only_password]
     = Inl (ValueError ''Secret missing required 'username' field'')"
    using e4 port by (simp add: getenv_def sim_defs)
  have c5: "get_connection_params sim_lib
        [''DATABASE_HOST'' \<mapsto> ''db.example'', ''DATABASE_URL'' \<mapsto> secret_only_username]
     = Inl (ValueError ''Secret missing required 'password' field'')"
    using e5 port by (simp add: getenv_def sim_defs)
  from c1 c2 c3 c4 c5 show ?thesis by blast
qed

text \<open>
  Claim C10: when \<^verbatim>\<open>DATABASE_PORT\<close> is set to a text that \<^verbatim>\<open>int\<close> rejects,
  \<^verbatim>\<open>get_connection_params\<close> fails with the error of \<^verbatim>\<open>int\<close> itself, which is none of the
  module's own configuration errors; the host and the secret play no part, whatever they
  are set to; and \<^verbatim>\<open>connect\<close>, when it gets to derive the parameters, returns \<^verbatim>\<open>False\<close>.
\<close>

theorem get_connection_params_port_unparsable:
  assumes "env ''DATABASE_PORT'' = Some t" and "py_int lib t = None"
  shows "get_connection_params lib env = Inl (IntValueError t)
    \<and> get_connection_params lib (env(''DATABASE_HOST'' := hv, ''DATABASE_URL'' := sv))
        = Inl (IntValueError t)
    \<and> \<not> is_config_error (IntValueError t)
    \<and> (\<not> connection_open drv s \<longrightarrow>
         connect lib env drv s = (Inr False, s\<lparr>connection := None\<rparr>))"
  using assms
  by (auto simp: get_connection_params_def getenv_def connect_params_fail)

text \<open>Claim C10 on the example configuration with the port \<^verbatim>\<open>abc\<close>.\<close>

theorem get_connection_params_port_unparsable_witness:
  "env_bad_port ''DATABASE_PORT'' = Some ''abc'' \<and> py_int sim_lib ''abc'' = None
   \<and> env_bad_port ''DATABASE_HOST'' = Some ''db.example''
   \<and> get_connection_params sim_lib env_bad_port = Inl (IntValueError ''abc'')
   \<and> \<not> connection_open sim_driver (new_manager healthy_world)
   \<and> connect sim_lib env_bad_port sim_driver (new_manager healthy_world)
       = (Inr False, new_manager healthy_world)"
  using get_connection_params_port_unparsable
    [of env_bad_port "''abc''" sim_lib _ _ sim_driver "new_manager healthy_world"]
  by (simp add: sim_defs connection_open_def)

section \<open>Connecting\<close>

text \<open>
  Claim C2 as it is written fails: a manager that holds an open connection gets
  \<^verbatim>\<open>True\<close> from \<^verbatim>\<open>connect\<close> although no probe is run in the call, here against a server
  that would answer the probe with the row \<open>(0,)\<close>.
\<close>

theorem connect_open_handle_counterexample:
  "connection (holding_manager wrong_probe_world) = Some 0
   \<and> probe_row (world (holding_manager wrong_probe_world)) = Some [PyInt 0]
   \<and> connect sim_lib env_example sim_driver (holding_manager wrong_probe_world)
       = (Inr True, holding_manager wrong_probe_world)
   \<and> trace (snd (connect sim_lib env_example sim_driver (holding_manager wrong_probe_world)))
       = []"
  by (simp add: connect_def connect_body_def return_def connection_open_def sim_defs)

text \<open>
  Claim C2, amended: every failure of \<^verbatim>\<open>connect\<close> that is an exception leaves no stored
  connection and returns \<^verbatim>\<open>False\<close>: a failed derivation of the parameters, an error of
  \<^verbatim>\<open>psycopg2.connect\<close>, and, once the new connection object is stored, an exception
  raised when autocommit is set, when the cursor is made, when the probe is executed,
  when its row is fetched or when the cursor is closed. For each of these the state that
  is left is given in full. When all driver calls succeed the result is \<^verbatim>\<open>True\<close> exactly
  when the fetched row has a first column equal to 1. Every call that does not return
  \<^verbatim>\<open>True\<close> returns \<^verbatim>\<open>False\<close>; and \<^verbatim>\<open>connect\<close> returns \<^verbatim>\<open>True\<close> only when an open connection
  was stored already, in which case no probe is run, or when the probe of the call fetched
  such a row.
\<close>

theorem connect_failure_discards:
  "(\<forall>e s'. connect_body lib env drv s = (Inl e, s') \<longrightarrow>
        connect lib env drv s = (Inr False, s'\<lparr>connection := None\<rparr>))
   \<and> (\<forall>ps e w'. \<not> connection_open drv s \<and> get_connection_params lib env = Inr ps \<and>
        drv_connect drv ps (world s) = (Inl e, w') \<longrightarrow>
        connect lib env drv s
          = (Inr False, s\<lparr>connection := None, world := w',
                           trace := trace s @ [Connect ps (Inl e)]\<rparr>))
   \<and> (fst (connect lib env drv s) \<noteq> Inr True \<longrightarrow> fst (connect lib env drv s) = Inr False)
   \<and> (fst (connect lib env drv s) = Inr True \<longrightarrow>
        connection_open drv s \<or>
        (\<exists>c v vs. Fetchone c (Inr (Some (v # vs)))
                     \<in> set (new_events s (snd (connect lib env drv s))) \<and> py_eq_1 v))
   \<and> (\<forall>e. \<not> connection_open drv s \<and> get_connection_params lib env = Inl e \<longrightarrow>
        connect lib env drv s = (Inr False, s\<lparr>connection := None\<rparr>))
   \<and> (\<forall>ps h e w1 w2.
        \<not> connection_open drv s \<and> get_connection_params lib env = Inr ps \<and>
        drv_connect drv ps (world s) = (Inr h, w1) \<and>
        drv_set_autocommit drv h True w1 = (Inl e, w2) \<longrightarrow>
        connect lib env drv s
          = (Inr False,
             s\<lparr>connection := None, world := w2,
               trace := trace s @ [Connect ps (Inr h), SetAutocommit h True (Inl e)]\<rparr>))
   \<and> (\<forall>ps h e w1 w2 w3.
        \<not> connection_open drv s \<and> get_connection_params lib env = Inr ps \<and>
        drv_connect drv ps (world s) = (Inr h, w1) \<and>
        drv_set_autocommit drv h True w1 = (Inr (), w2) \<and>
        drv_cursor drv h w2 = (Inl e, w3) \<longrightarrow>
        connect lib env drv s
          = (Inr False,
             s\<lparr>connection := None, world := w3,
               trace := trace s @ [Connect ps (Inr h), SetAutocommit h True (Inr ()),
                                   Cursor h (Inl e)]\<rparr>))
   \<and> (\<forall>ps h c e w1 w2 w3 w4.
        \<not> connection_open drv s \<and> get_connection_params lib env = Inr ps \<and>
        drv_connect drv ps (world s) = (Inr h, w1) \<and>
        drv_set_autocommit drv h True w1 = (Inr (), w2) \<and>
        drv_cursor drv h w2 = (Inr c, w3) \<and>
        drv_execute drv c ''SELECT 1'' None w3 = (Inl e, w4) \<longrightarrow>
        connect lib env drv s
          = (Inr False,
             s\<lparr>connection := None, world := w4,
               trace := trace s @ [Connect ps (Inr h), SetAutocommit h True (Inr ()),
                                   Cursor h (Inr c),
                                   Execute c ''SELECT 1'' None (Inl e)]\<rparr>))
   \<and> (\<forall>ps h c e w1 w2 w3 w4 w5.
        \<not> connection_open drv s \<and> get_connection_params lib env = Inr ps \<and>
        drv_connect drv ps (world s) = (Inr h, w1) \<and>
        drv_set_autocommit drv h True w1 = (Inr (), w2) \<and>
        drv_cursor drv h w2 = (Inr c, w3) \<and>
        drv_execute drv c ''SELECT 1'' None w3 = (Inr (), w4) \<and>
        drv_fetchone drv c w4 = (Inl e, w5) \<longrightarrow>
        connect lib env drv s
          = (Inr False,
             s\<lparr>connection := None, world := w5,
               trace := trace s @ [Connect ps (Inr h), SetAutocommit h True (Inr ()),
                                   Cursor h (Inr c),
                                   Execute c ''SELECT 1'' None (Inr ()),
                                   Fetchone c (Inl e)]\<rparr>))
   \<and> (\<forall>ps h c r e w1 w2 w3 w4 w5 w6.
        \<not> connection_open drv s \<and> get_connection_params lib env = Inr ps \<and>
        drv_connect drv ps (world s) = (Inr h, w1) \<and>
        drv_set_autocommit drv h True w1 = (Inr (), w2) \<and>
        drv_cursor drv h w2 = (Inr c, w3) \<and>
        drv_execute drv c ''SELECT 1'' None w3 = (Inr (), w4) \<and>
        drv_fetchone drv c w4 = (Inr r, w5) \<and>
        drv_cursor_close drv c w5 = (Inl e, w6) \<longrightarrow>
        connect lib env drv s
          = (Inr False,
             s\<lparr>connection := None, world := w6,
               trace := trace s @ [Connect ps (Inr h), SetAutocommit h True (Inr ()),
                                   Cursor h (Inr c),
                                   Execute c ''SELECT 1'' None (Inr ()),
                                   Fetchone c (Inr r), CursorClose c (Inl e)]\<rparr>))
   \<and> (\<forall>ps h c r w1 w2 w3 w4 w5 w6.
        \<not> connection_open drv s \<and> get_connection_params lib env = Inr ps \<and>
        drv_connect drv ps (world s) = (Inr h, w1) \<and>
        drv_set_autocommit drv h True w1 = (Inr (), w2) \<and>
        drv_cursor drv h w2 = (Inr c, w3) \<and>
        drv_execute drv c ''SELECT 1'' None w3 = (Inr (), w4) \<and>
        drv_fetchone drv c w4 = (Inr r, w5) \<and>
        drv_cursor_close drv c w5 = (Inr (), w6) \<longrightarrow>
        fst (connect lib env drv s) = Inr (probe_ok r))"
proof (intro conjI allI impI)
  fix e s' assume "connect_body lib env drv s = (Inl e, s')"
  then show "connect lib env drv s = (Inr False, s'\<lparr>connection := None\<rparr>)"
    by (rule connect_body_raise)
next
  fix ps e w'
  assume "\<not> connection_open drv s \<and> get_connection_params lib env = Inr ps \<and>
        drv_connect drv ps (world s) = (Inl e, w')"
  then show "connect lib env drv s
          = (Inr False, s\<lparr>connection := None, world := w',
                           trace := trace s @ [Connect ps (Inl e)]\<rparr>)"
    by (simp add: connect_raises_at_connect)
next
  assume "fst (connect lib env drv s) \<noteq> Inr True"
  then show "fst (connect lib env drv s) = Inr False"
    using connect_returns [of lib env drv s] by auto
next
  assume t: "fst (connect lib env drv s) = Inr True"
  obtain r s' where b: "connect_body lib env drv s = (r, s')"
    by (cases "connect_body lib env drv s")
  show "connection_open drv s \<or>
        (\<exists>c v vs. Fetchone c (Inr (Some (v # vs)))
                     \<in> set (new_events s (snd (connect lib env drv s))) \<and> py_eq_1 v)"
  proof (cases r)
    case (Inl e)
    with b t show ?thesis by (simp add: connect_body_raise)
  next
    case (Inr ok)
    with b t have "connect_body lib env drv s = (Inr True, s')"
      and "snd (connect lib env drv s) = s'"
      by (simp_all add: connect_body_result)
    then show ?thesis using connect_body_True [of lib env drv s s'] by simp
  qed
next
  fix e assume "\<not> connection_open drv s \<and> get_connection_params lib env = Inl e"
  then show "connect lib env drv s = (Inr False, s\<lparr>connection := None\<rparr>)"
    by (simp add: connect_params_fail)
qed (simp_all add: connect_raises_at_autocommit connect_raises_at_cursor
      connect_raises_at_execute connect_raises_at_fetchone connect_raises_at_cursor_close
      connect_probe_completes)

text \<open>
  Claim C2, amended: on a server that is down, on the five drivers that fail after the
  connection was opened (the handle 0 they had stored is gone), on a healthy server, on a
  server that answers the probe with the row \<open>(0,)\<close>, and on an empty environment.
\<close>

theorem connect_failure_discards_witness:
  "connect sim_lib env_example sim_driver (new_manager down_world)
     = (Inr False,
        \<lparr>connection = None, world = down_world,
         trace = [Connect example_params
                   (Inl (OperationalError ''could not connect to server''))]\<rparr>)
   \<and> connect sim_lib env_example (failing_driver 1) (new_manager healthy_world)
     = (Inr False,
        \<lparr>connection = None, world = healthy_world\<lparr>issued := 1\<rparr>,
         trace = [Connect example_params (Inr 0),
                  SetAutocommit 0 True (Inl (Psycopg2Error ''set_session failed''))]\<rparr>)
   \<and> connect sim_lib env_example (failing_driver 2) (new_manager healthy_world)
     = (Inr False,
        \<lparr>connection = None, world = healthy_world\<lparr>issued := 1\<rparr>,
         trace = [Connect example_params (Inr 0), SetAutocommit 0 True (Inr ()),
                  Cursor 0 (Inl (Psycopg2Error ''cursor failed''))]\<rparr>)
   \<and> connect sim_lib env_example (failing_driver 3) (new_manager healthy_world)
     = (Inr False,
        \<lparr>connection = None, world = healthy_world\<lparr>issued := 1\<rparr>,
         trace = [Connect example_params (Inr 0), SetAutocommit 0 True (Inr ()),
                  Cursor 0 (Inr 0),
                  Execute 0 ''SELECT 1'' None (Inl (OperationalError ''connection reset''))]\<rparr>)
   \<and> connect sim_lib env_example (failing_driver 4) (new_manager healthy_world)
     = (Inr False,
        \<lparr>connection = None, world = healthy_world\<lparr>issued := 1, pending := Some [[PyInt 1]]\<rparr>,
         trace = [Connect example_params (Inr 0), SetAutocommit 0 True (Inr ()),
                  Cursor 0 (Inr 0), Execute 0 ''SELECT 1'' None (Inr ()),
                  Fetchone 0 (Inl (OperationalError ''connection reset''))]\<rparr>)
   \<and> connect sim_lib env_example (failing_driver 5) (new_manager healthy_world)
     = (Inr False,
        \<lparr>connection = None, world = healthy_world\<lparr>issued := 1, pending := Some []\<rparr>,
         trace = [Connect example_params (Inr 0), SetAutocommit 0 True (Inr ()),
                  Cursor 0 (Inr 0), Execute 0 ''SELECT 1'' None (Inr ()),
                  Fetchone 0 (Inr (Some [PyInt 1])),
                  CursorClose 0 (Inl (Psycopg2Error ''cursor close failed''))]\<rparr>)
   \<and> fst (connect sim_lib env_example sim_driver (new_manager healthy_world)) = Inr True
   \<and> (\<exists>c v vs. Fetchone c (Inr (Some (v # vs)))
         \<in> set (trace (snd (connect sim_lib env_example sim_driver (new_manager healthy_world))))
         \<and> py_eq_1 v)
   \<and> fst (connect sim_lib env_example sim_driver (new_manager wrong_probe_world)) = Inr False
   \<and> connect sim_lib Map.empty sim_driver (new_manager healthy_world)
       = (Inr False, new_manager healthy_world)"
proof -
  have n: "\<not> connection_open drv (new_manager v)" for drv :: "sim_world driver" and v
    by (rule new_manager_not_open)
  note p = sim_params_example'
  let ?s = "new_manager healthy_world"
  let ?w1 = "healthy_world\<lparr>issued := 1\<rparr>"
  let ?w4 = "healthy_world\<lparr>issued := 1, pending := Some [[PyInt 1]]\<rparr>"
  let ?w5 = "healthy_world\<lparr>issued := 1, pending := Some []\<rparr>"
  have d0: "drv_connect sim_driver example_params (world (new_manager down_world))
      = (Inl (OperationalError ''could not connect to server''), down_world)"
    by (simp add: sim_defs)
  have c: "drv_connect (failing_driver k) example_params (world ?s) = (Inr 0, ?w1)" for k
    by (simp add: sim_defs)
  have a1: "drv_set_autocommit (failing_driver 1) 0 True ?w1
      = (Inl (Psycopg2Error ''set_session failed''), ?w1)"
    by (simp add: sim_defs)
  have a: "k \<noteq> 1 \<Longrightarrow> drv_set_autocommit (failing_driver k) 0 True ?w1 = (Inr (), ?w1)" for k
    by (simp add: sim_defs)
  have u2: "drv_cursor (failing_driver 2) 0 ?w1 = (Inl (Psycopg2Error ''cursor failed''), ?w1)"
    by (simp add: sim_defs)
  have u: "k \<noteq> 2 \<Longrightarrow> drv_cursor (failing_driver k) 0 ?w1 = (Inr 0, ?w1)" for k
    by (simp add: sim_defs)
  have x3: "drv_execute (failing_driver 3) 0 ''SELECT 1'' None ?w1
      = (Inl (OperationalError ''connection reset''), ?w1)"
    by (simp add: sim_defs)
  have x: "k \<noteq> 3 \<Longrightarrow> drv_execute (failing_driver k) 0 ''SELECT 1'' None ?w1 = (Inr (), ?w4)"
    for k
    by (simp add: sim_defs)
  have f4: "drv_fetchone (failing_driver 4) 0 ?w4
      = (Inl (OperationalError ''connection reset''), ?w4)"
    by (simp add: sim_defs)
  have f: "k \<noteq> 4 \<Longrightarrow> drv_fetchone (failing_driver k) 0 ?w4 = (Inr (Some [PyInt 1]), ?w5)"
    for k
    by (simp add: sim_defs)
  have l5: "drv_cursor_close (failing_driver 5) 0 ?w5
      = (Inl (Psycopg2Error ''cursor close failed''), ?w5)"
    by (simp add: sim_defs)
  have r0: "connect sim_lib env_example sim_driver (new_manager down_world)
     = (Inr False,
        \<lparr>connection = None, world = down_world,
         trace = [Connect example_params
                   (Inl (OperationalError ''could not connect to server''))]\<rparr>)"
    using connect_failure_discards [of sim_lib env_example sim_driver "new_manager down_world", THEN conjunct2, THEN conjunct1, rule_format, of example_params _ down_world] p n d0
    by (simp add: new_manager_def)
  have r1: "connect sim_lib env_example (failing_driver 1) ?s
     = (Inr False,
        \<lparr>connection = None, world = ?w1,
         trace = [Connect example_params (Inr 0),
                  SetAutocommit 0 True (Inl (Psycopg2Error ''set_session failed''))]\<rparr>)"
    using connect_failure_discards [of sim_lib env_example "failing_driver 1" ?s, THEN conjunct2, THEN conjunct2, THEN conjunct2, THEN conjunct2, THEN conjunct2, THEN conjunct1, rule_format, of example_params 0 ?w1 _ ?w1] p n c a1
    by (simp add: new_manager_def)
  have r2: "connect sim_lib env_example (failing_driver 2) ?s
     = (Inr False,
        \<lparr>connection = None, world = ?w1,
         trace = [Connect example_params (Inr 0), SetAutocommit 0 True (Inr ()),
                  Cursor 0 (Inl (Psycopg2Error ''cursor failed''))]\<rparr>)"
    using connect_failure_discards [of sim_lib env_example "failing_driver 2" ?s, THEN conjunct2, THEN conjunct2, THEN conjunct2, THEN conjunct2, THEN conjunct2, THEN conjunct2, THEN conjunct1, rule_format, of example_params 0 ?w1 ?w1 _ ?w1] p n c a [of 2] u2
    by (simp add: new_manager_def)
  have r3: "connect sim_lib env_example (failing_driver 3) ?s
     = (Inr False,
        \<lparr>connection = None, world = ?w1,
         trace = [Connect example_params (Inr 0), SetAutocommit 0 True (Inr ()),
                  Cursor 0 (Inr 0),
                  Execute 0 ''SELECT 1'' None (Inl (OperationalError ''connection reset''))]\<rparr>)"
    using connect_failure_discards [of sim_lib env_example "failing_driver 3" ?s, THEN conjunct2, THEN conjunct2, THEN conjunct2, THEN conjunct2, THEN conjunct2, THEN conjunct2, THEN conjunct2, THEN conjunct1, rule_format, of example_params 0 ?w1 ?w1 0 ?w1 _ ?w1] p n c a [of 3] u [of 3] x3
    by (simp add: new_manager_def)
  have r4: "connect sim_lib env_example (failing_driver 4) ?s
     = (Inr False,
        \<lparr>connection = None, world = ?w4,
         trace = [Connect example_params (Inr 0), SetAutocommit 0 True (Inr ()),
                  Cursor 0 (Inr 0), Execute 0 ''SELECT 1'' None (Inr ()),
                  Fetchone 0 (Inl (OperationalError ''connection reset''))]\<rparr>)"
    using connect_failure_discards [of sim_lib env_example "failing_driver 4" ?s, THEN conjunct2, THEN conjunct2, THEN conjunct2, THEN conjunct2, THEN conjunct2, THEN conjunct2, THEN conjunct2, THEN conjunct2, THEN conjunct1, rule_format, of example_params 0 ?w1 ?w1 0 ?w1 ?w4 _ ?w4] p n c a [of 4] u [of 4] x [of 4] f4
    by (simp add: new_manager_def)
  have r5: "connect sim_lib env_example (failing_driver 5) ?s
     = (Inr False,
        \<lparr>connection = None, world = ?w5,
         trace = [Connect example_params (Inr 0), SetAutocommit 0 True (Inr ()),
                  Cursor 0 (Inr 0), Execute 0 ''SELECT 1'' None (Inr ()),
                  Fetchone 0 (Inr (Some [PyInt 1])),
                  CursorClose 0 (Inl (Psycopg2Error ''cursor close failed''))]\<rparr>)"
    using connect_failure_discards [of sim_lib env_example "failing_driver 5" ?s, THEN conjunct2, THEN conjunct2, THEN conjunct2, THEN conjunct2, THEN conjunct2, THEN conjunct2, THEN conjunct2, THEN conjunct2, THEN conjunct2, THEN conjunct1, rule_format, of example_params 0 ?w1 ?w1 0 ?w1 ?w4 "Some [PyInt 1]" ?w5 _ ?w5]
      p n c a [of 5] u [of 5] x [of 5] f [of 5] l5
    by (simp add: new_manager_def)
  have t: "fst (connect sim_lib env_example sim_driver ?s) = Inr True"
    by (simp add: sim_connect_healthy)
  have r6: "\<exists>c v vs. Fetchone c (Inr (Some (v # vs)))
         \<in> set (trace (snd (connect sim_lib env_example sim_driver ?s))) \<and> py_eq_1 v"
    using connect_failure_discards [of sim_lib env_example sim_driver ?s, THEN conjunct2, THEN conjunct2, THEN conjunct2, THEN conjunct1, rule_format, OF t] n [of sim_driver healthy_world]
    by (simp add: new_events_def new_manager_def)
  have f7: "fst (connect sim_lib env_example sim_driver (new_manager wrong_probe_world))
      \<noteq> Inr True"
    by (simp add: connect_def connect_body_def action_defs connection_open_def
        get_connection_params_def getenv_def sim_defs)
  note r7 = connect_failure_discards [of sim_lib env_example sim_driver "new_manager wrong_probe_world", THEN conjunct2, THEN conjunct2, THEN conjunct1, rule_format, OF f7]
  have b: "get_connection_params sim_lib Map.empty
       = Inl (ValueError ''DATABASE_URL secret not available from Kubernetes'')"
    by (simp add: get_connection_params_def getenv_def sim_defs)
  have r8: "connect sim_lib Map.empty sim_driver ?s = (Inr False, ?s)"
    using connect_failure_discards [of sim_lib Map.empty sim_driver ?s, THEN conjunct2, THEN conjunct2, THEN conjunct2, THEN conjunct2, THEN conjunct1, rule_format, of "ValueError ''DATABASE_URL secret not available from Kubernetes''"] b n
    by (simp add: new_manager_def)
  from r0 r1 r2 r3 r4 r5 t r6 r7 r8 show ?thesis by blast
qed

text \<open>
  Claim C3 as it is written fails: after a first \<^verbatim>\<open>connect\<close> on a healthy server the
  manager holds connection 0, and the second \<^verbatim>\<open>connect\<close> returns \<^verbatim>\<open>True\<close> having made no
  driver call at all, so no probe is performed on the handle that exists.
\<close>

theorem connect_twice_counterexample:
  "connection (snd (connect sim_lib env_example sim_driver (new_manager healthy_world))) = Some 0
   \<and> fst (connect sim_lib env_example sim_driver
            (snd (connect sim_lib env_example sim_driver (new_manager healthy_world)))) = Inr True
   \<and> new_events (snd (connect sim_lib env_example sim_driver (new_manager healthy_world)))
        (snd (connect sim_lib env_example sim_driver
            (snd (connect sim_lib env_example sim_driver (new_manager healthy_world))))) = []"
  by (simp add: sim_connect_healthy new_events_def)
    (simp add: connect_def connect_body_def return_def connection_open_def sim_defs)

text \<open>
  Claim C3, amended: \<^verbatim>\<open>connect\<close> is idempotent. Whenever a connection is stored and its
  \<^verbatim>\<open>closed\<close> attribute is zero, \<^verbatim>\<open>connect\<close> returns \<^verbatim>\<open>True\<close> and changes nothing: it runs
  no probe and opens no connection. Two consecutive calls over a healthy connection (the
  first returns \<^verbatim>\<open>True\<close> and leaves the connection open) both return \<^verbatim>\<open>True\<close>, run the probe
  at most once in total, hence at most twice, and open at most one connection.
\<close>

theorem connect_idempotent:
  "(connection_open drv s \<longrightarrow> connect lib env drv s = (Inr True, s))
   \<and> (fst (connect lib env drv s) = Inr True
        \<and> connection_open drv (snd (connect lib env drv s)) \<longrightarrow>
        connect lib env drv (snd (connect lib env drv s))
           = (Inr True, snd (connect lib env drv s))
        \<and> length (filter is_probe
             (new_events s (snd (connect lib env drv (snd (connect lib env drv s)))))) \<le> 1
        \<and> length (filter is_connect
             (new_events s (snd (connect lib env drv (snd (connect lib env drv s)))))) \<le> 1)"
proof (intro conjI impI)
  assume "connection_open drv s"
  then show "connect lib env drv s = (Inr True, s)" by (rule connect_open)
next
  assume a: "fst (connect lib env drv s) = Inr True
        \<and> connection_open drv (snd (connect lib env drv s))"
  then show second: "connect lib env drv (snd (connect lib env drv s))
           = (Inr True, snd (connect lib env drv s))"
    by (simp add: connect_open)
  obtain evs where e: "trace (snd (connect lib env drv s)) = trace s @ evs"
     "length (filter is_connect evs) \<le> 1" "length (filter is_probe evs) \<le> 1"
    using connect_events [of lib env drv s] by auto
  show "length (filter is_probe
             (new_events s (snd (connect lib env drv (snd (connect lib env drv s)))))) \<le> 1"
    using e by (simp add: second new_events_def)
  show "length (filter is_connect
             (new_events s (snd (connect lib env drv (snd (connect lib env drv s)))))) \<le> 1"
    using e by (simp add: second new_events_def)
qed

text \<open>
  Claim C3, amended, on the healthy server: from a manager that holds connection 0, and
  twice in a row from a new manager.
\<close>

theorem connect_idempotent_witness:
  "connection_open sim_driver (holding_manager healthy_world)
   \<and> connect sim_lib env_example sim_driver (holding_manager healthy_world)
       = (Inr True, holding_manager healthy_world)
   \<and> fst (connect sim_lib env_example sim_driver (new_manager healthy_world)) = Inr True
   \<and> connection_open sim_driver
        (snd (connect sim_lib env_example sim_driver (new_manager healthy_world)))
   \<and> fst (connect sim_lib env_example sim_driver
        (snd (connect sim_lib env_example sim_driver (new_manager healthy_world)))) = Inr True
   \<and> length (filter is_probe (new_events (new_manager healthy_world)
        (snd (connect sim_lib env_example sim_driver
          (snd (connect sim_lib env_example sim_driver (new_manager healthy_world))))))) \<le> 1"
proof -
  have o: "connection_open sim_driver (holding_manager healthy_world)"
    by (simp add: connection_open_def sim_defs)
  from connect_idempotent [of sim_driver "holding_manager healthy_world" sim_lib env_example] o
  have r0: "connect sim_lib env_example sim_driver (holding_manager healthy_world)
       = (Inr True, holding_manager healthy_world)"
    by blast
  have a: "fst (connect sim_lib env_example sim_driver (new_manager healthy_world)) = Inr True"
    by (simp add: sim_connect_healthy)
  have b: "connection_open sim_driver
        (snd (connect sim_lib env_example sim_driver (new_manager healthy_world)))"
    unfolding sim_connect_healthy by (simp add: connection_open_def sim_defs)
  from connect_idempotent [of sim_driver "new_manager healthy_world" sim_lib env_example] a b
  have c: "connect sim_lib env_example sim_driver
        (snd (connect sim_lib env_example sim_driver (new_manager healthy_world)))
      = (Inr True, snd (connect sim_lib env_example sim_driver (new_manager healthy_world)))
    \<and> length (filter is_probe (new_events (new_manager healthy_world)
        (snd (connect sim_lib env_example sim_driver
          (snd (connect sim_lib env_example sim_driver (new_manager healthy_world))))))) \<le> 1"
    by blast
  then have d: "fst (connect sim_lib env_example sim_driver
        (snd (connect sim_lib env_example sim_driver (new_manager healthy_world)))) = Inr True"
    by simp
  from o r0 a b c d show ?thesis by blast
qed

text \<open>
  Claim C7 as it is written fails for \<^verbatim>\<open>is_connected\<close> and a probe that does not match:
  on a server that answers the probe with the row \<open>(0,)\<close>, \<^verbatim>\<open>is_connected\<close> returns
  \<^verbatim>\<open>True\<close>, because it does not look at the row it fetched.
\<close>

theorem is_connected_wrong_probe_counterexample:
  "\<not> probe_ok (Some [PyInt 0])
   \<and> is_connected sim_driver (holding_manager wrong_probe_world)
     = (Inr True,
        \<lparr>connection = Some 0,
         world = wrong_probe_world\<lparr>issued := 1, pending := Some []\<rparr>,
         trace = [Cursor 0 (Inr 0), Execute 0 ''SELECT 1'' None (Inr ()),
                  Fetchone 0 (Inr (Some [PyInt 0])), CursorClose 0 (Inr ())]\<rparr>)"
  by (simp add: is_connected_def is_connected_body_def action_defs connection_open_def sim_defs)

text \<open>
  Claim C7, amended: \<^verbatim>\<open>connect\<close> and \<^verbatim>\<open>is_connected\<close> always return a boolean, never an
  exception. \<^verbatim>\<open>connect\<close> returns \<^verbatim>\<open>False\<close> when the derivation of the parameters fails,
  when any of its driver calls raises (connecting, setting autocommit, making the cursor,
  executing the probe, fetching its row, closing the cursor) and when the probe does not
  match. \<^verbatim>\<open>is_connected\<close> returns \<^verbatim>\<open>False\<close> whenever no open connection is stored and
  whenever one of its driver calls raises (making the cursor, executing the probe,
  fetching its row, closing the cursor); it returns \<^verbatim>\<open>True\<close> whenever all four succeed,
  whatever row was fetched.
\<close>

theorem connect_is_connected_never_raise:
  "(\<exists>b. fst (connect lib env drv s) = Inr b)
   \<and> (fst (connect_body lib env drv s) \<noteq> Inr True \<longrightarrow> fst (connect lib env drv s) = Inr False)
   \<and> (\<forall>e. \<not> connection_open drv s \<and> get_connection_params lib env = Inl e \<longrightarrow>
         connect lib env drv s = (Inr False, s\<lparr>connection := None\<rparr>))
   \<and> (\<exists>b. fst (is_connected drv s) = Inr b)
   \<and> (\<forall>e s'. is_connected_body drv s = (Inl e, s') \<longrightarrow>
         is_connected drv s = (Inr False, s'))
   \<and> (\<not> connection_open drv s \<longrightarrow> is_connected drv s = (Inr False, s))
   \<and> (\<forall>h c w1 w2 r w3 w4.
         connection s = Some h \<and> \<not> drv_closed drv (world s) h \<and>
         drv_cursor drv h (world s) = (Inr c, w1) \<and>
         drv_execute drv c ''SELECT 1'' None w1 = (Inr (), w2) \<and>
         drv_fetchone drv c w2 = (Inr r, w3) \<and>
         drv_cursor_close drv c w3 = (Inr (), w4) \<longrightarrow>
         fst (is_connected drv s) = Inr True)
   \<and> (\<forall>ps h c r e w1 w2 w3 w4 w5 w6.
         \<not> connection_open drv s \<and> get_connection_params lib env = Inr ps \<and>
         (drv_connect drv ps (world s) = (Inl e, w1)
          \<or> drv_connect drv ps (world s) = (Inr h, w1) \<and>
            (drv_set_autocommit drv h True w1 = (Inl e, w2)
             \<or> drv_set_autocommit drv h True w1 = (Inr (), w2) \<and>
               (drv_cursor drv h w2 = (Inl e, w3)
                \<or> drv_cursor drv h w2 = (Inr c, w3) \<and>
                  (drv_execute drv c ''SELECT 1'' None w3 = (Inl e, w4)
                   \<or> drv_execute drv c ''SELECT 1'' None w3 = (Inr (), w4) \<and>
                     (drv_fetchone drv c w4 = (Inl e, w5)
                      \<or> drv_fetchone drv c w4 = (Inr r, w5) \<and>
                        (drv_cursor_close drv c w5 = (Inl e, w6)
                         \<or> drv_cursor_close drv c w5 = (Inr (), w6) \<and> \<not> probe_ok r)))))) \<longrightarrow>
         fst (connect lib env drv s) = Inr False)
   \<and> (\<forall>h c r e w1 w2 w3 w4.
         connection s = Some h \<and> \<not> drv_closed drv (world s) h \<and>
         (drv_cursor drv h (world s) = (Inl e, w1)
          \<or> drv_cursor drv h (world s) = (Inr c, w1) \<and>
            (drv_execute drv c ''SELECT 1'' None w1 = (Inl e, w2)
             \<or> drv_execute drv c ''SELECT 1'' None w1 = (Inr (), w2) \<and>
               (drv_fetchone drv c w2 = (Inl e, w3)
                \<or> drv_fetchone drv c w2 = (Inr r, w3) \<and>
                  drv_cursor_close drv c w3 = (Inl e, w4)))) \<longrightarrow>
         fst (is_connected drv s) = Inr False)"
proof (intro conjI allI impI)
  show "\<exists>b. fst (connect lib env drv s) = Inr b"
    using connect_returns [of lib env drv s] by auto
  show "\<exists>b. fst (is_connected drv s) = Inr b"
    using is_connected_returns [of drv s] by auto
next
  assume "fst (connect_body lib env drv s) \<noteq> Inr True"
  then show "fst (connect lib env drv s) = Inr False"
    by (auto simp: connect_def split: prod.splits sum.splits)
next
  fix e assume "\<not> connection_open drv s \<and> get_connection_params lib env = Inl e"
  then show "connect lib env drv s = (Inr False, s\<lparr>connection := None\<rparr>)"
    by (simp add: connect_params_fail)
next
  fix e s' assume "is_connected_body drv s = (Inl e, s')"
  then show "is_connected drv s = (Inr False, s')"
    by (simp add: is_connected_def)
next
  assume "\<not> connection_open drv s"
  then show "is_connected drv s = (Inr False, s)"
    by (rule is_connected_not_open)
next
  fix h c w1 w2 r w3 w4
  assume "connection s = Some h \<and> \<not> drv_closed drv (world s) h \<and>
         drv_cursor drv h (world s) = (Inr c, w1) \<and>
         drv_execute drv c ''SELECT 1'' None w1 = (Inr (), w2) \<and>
         drv_fetchone drv c w2 = (Inr r, w3) \<and>
         drv_cursor_close drv c w3 = (Inr (), w4)"
  then show "fst (is_connected drv s) = Inr True"
    by (simp add: is_connected_probe_completes)
next
  fix ps h c r e w1 w2 w3 w4 w5 w6
  assume "\<not> connection_open drv s \<and> get_connection_params lib env = Inr ps \<and>
         (drv_connect drv ps (world s) = (Inl e, w1)
          \<or> drv_connect drv ps (world s) = (Inr h, w1) \<and>
            (drv_set_autocommit drv h True w1 = (Inl e, w2)
             \<or> drv_set_autocommit drv h True w1 = (Inr (), w2) \<and>
               (drv_cursor drv h w2 = (Inl e, w3)
                \<or> drv_cursor drv h w2 = (Inr c, w3) \<and>
                  (drv_execute drv c ''SELECT 1'' None w3 = (Inl e, w4)
                   \<or> drv_execute drv c ''SELECT 1'' None w3 = (Inr (), w4) \<and>
                     (drv_fetchone drv c w4 = (Inl e, w5)
                      \<or> drv_fetchone drv c w4 = (Inr r, w5) \<and>
                        (drv_cursor_close drv c w5 = (Inl e, w6)
                         \<or> drv_cursor_close drv c w5 = (Inr (), w6) \<and> \<not> probe_ok r))))))"
  then show "fst (connect lib env drv s) = Inr False"
    by (elim conjE disjE)
      (simp_all add: connect_raises_at_connect connect_raises_at_autocommit
        connect_raises_at_cursor connect_raises_at_execute connect_raises_at_fetchone
        connect_raises_at_cursor_close connect_probe_completes)
next
  fix h c r e w1 w2 w3 w4
  assume "connection s = Some h \<and> \<not> drv_closed drv (world s) h \<and>
         (drv_cursor drv h (world s) = (Inl e, w1)
          \<or> drv_cursor drv h (world s) = (Inr c, w1) \<and>
            (drv_execute drv c ''SELECT 1'' None w1 = (Inl e, w2)
             \<or> drv_execute drv c ''SELECT 1'' None w1 = (Inr (), w2) \<and>
               (drv_fetchone drv c w2 = (Inl e, w3)
                \<or> drv_fetchone drv c w2 = (Inr r, w3) \<and>
                  drv_cursor_close drv c w3 = (Inl e, w4))))"
  then show "fst (is_connected drv s) = Inr False"
    by (elim conjE disjE)
      (simp_all add: is_connected_raises_at_cursor is_connected_raises_at_execute
        is_connected_raises_at_fetchone is_connected_raises_at_cursor_close)
qed

text \<open>
  Claim C7, amended: on a server that is down, on a driver whose probe execution fails, on
  a server whose probe answers \<open>(0,)\<close>, on an empty environment, on a new manager, and,
  for \<^verbatim>\<open>is_connected\<close>, on the four drivers that fail at one call of the probe each.
\<close>

theorem connect_is_connected_never_raise_witness:
  "fst (connect_body sim_lib env_example sim_driver (new_manager down_world))
     = Inl (OperationalError ''could not connect to server'')
   \<and> fst (connect sim_lib env_example sim_driver (new_manager down_world)) = Inr False
   \<and> fst (connect sim_lib env_example (failing_driver 3) (new_manager healthy_world)) = Inr False
   \<and> fst (connect sim_lib env_example sim_driver (new_manager wrong_probe_world)) = Inr False
   \<and> get_connection_params sim_lib Map.empty
       = Inl (ValueError ''DATABASE_URL secret not available from Kubernetes'')
   \<and> connect sim_lib Map.empty sim_driver (new_manager healthy_world)
       = (Inr False, new_manager healthy_world)
   \<and> fst (is_connected_body sim_driver (holding_manager down_world))
       = Inl (OperationalError ''server closed the connection unexpectedly'')
   \<and> fst (is_connected sim_driver (holding_manager down_world)) = Inr False
   \<and> fst (is_connected (failing_driver 2) (holding_manager healthy_world)) = Inr False
   \<and> fst (is_connected (failing_driver 3) (holding_manager healthy_world)) = Inr False
   \<and> fst (is_connected (failing_driver 4) (holding_manager healthy_world)) = Inr False
   \<and> fst (is_connected (failing_driver 5) (holding_manager healthy_world)) = Inr False
   \<and> is_connected sim_driver (new_manager healthy_world) = (Inr False, new_manager healthy_world)
   \<and> fst (is_connected sim_driver (holding_manager wrong_probe_world)) = Inr True"
proof -
  let ?w1 = "healthy_world\<lparr>issued := 1\<rparr>"
  let ?w4 = "healthy_world\<lparr>issued := 1, pending := Some [[PyInt 1]]\<rparr>"
  let ?w5 = "healthy_world\<lparr>issued := 1, pending := Some []\<rparr>"
  let ?v1 = "wrong_probe_world\<lparr>issued := 1\<rparr>"
  let ?v4 = "wrong_probe_world\<lparr>issued := 1, pending := Some [[PyInt 0]]\<rparr>"
  let ?v5 = "wrong_probe_world\<lparr>issued := 1, pending := Some []\<rparr>"
  let ?e = "OperationalError ''connection reset''"
  note T = connect_is_connected_never_raise
  note n = new_manager_not_open
  note p = sim_params_example'
  note hm = holding_manager_fields
  note nm = new_manager_fields
  have a: "fst (connect_body sim_lib env_example sim_driver (new_manager down_world))
     = Inl (OperationalError ''could not connect to server'')"
    by (simp add: connect_body_def action_defs connection_open_def
        get_connection_params_def getenv_def sim_defs)
  have b: "get_connection_params sim_lib Map.empty
       = Inl (ValueError ''DATABASE_URL secret not available from Kubernetes'')"
    by (simp add: get_connection_params_def getenv_def sim_defs)
  note d = sim_is_connected_body_down
  have r1: "fst (connect sim_lib env_example sim_driver (new_manager down_world)) = Inr False"
    using T [of sim_lib env_example sim_driver "new_manager down_world",
        THEN conjunct2, THEN conjunct1] a
    by simp
  have h3: "\<not> connection_open (failing_driver 3) (new_manager healthy_world)
      \<and> get_connection_params sim_lib env_example = Inr example_params
      \<and> (drv_connect (failing_driver 3) example_params (world (new_manager healthy_world)) = (Inl ?e, ?w1)
         \<or> drv_connect (failing_driver 3) example_params (world (new_manager healthy_world)) = (Inr 0, ?w1) \<and>
           (drv_set_autocommit (failing_driver 3) 0 True ?w1 = (Inl ?e, ?w1)
            \<or> drv_set_autocommit (failing_driver 3) 0 True ?w1 = (Inr (), ?w1) \<and>
              (drv_cursor (failing_driver 3) 0 ?w1 = (Inl ?e, ?w1)
               \<or> drv_cursor (failing_driver 3) 0 ?w1 = (Inr 0, ?w1) \<and>
                 (drv_execute (failing_driver 3) 0 ''SELECT 1'' None ?w1 = (Inl ?e, ?w1)
                  \<or> drv_execute (failing_driver 3) 0 ''SELECT 1'' None ?w1 = (Inr (), ?w1) \<and>
                    (drv_fetchone (failing_driver 3) 0 ?w1 = (Inl ?e, ?w1)
                     \<or> drv_fetchone (failing_driver 3) 0 ?w1 = (Inr None, ?w1) \<and>
                       (drv_cursor_close (failing_driver 3) 0 ?w1 = (Inl ?e, ?w1)
                        \<or> drv_cursor_close (failing_driver 3) 0 ?w1 = (Inr (), ?w1) \<and>
                          \<not> probe_ok None))))))"
    by (simp add: n p nm failing_driver_steps del: One_nat_def)
  note r2 = T [of sim_lib env_example "failing_driver 3" "new_manager healthy_world",
        THEN conjunct2, THEN conjunct2, THEN conjunct2, THEN conjunct2, THEN conjunct2,
        THEN conjunct2, THEN conjunct2, THEN conjunct1, rule_format, OF h3]
  have hw: "\<not> connection_open sim_driver (new_manager wrong_probe_world)
      \<and> get_connection_params sim_lib env_example = Inr example_params
      \<and> (drv_connect sim_driver example_params (world (new_manager wrong_probe_world)) = (Inl ?e, ?v1)
         \<or> drv_connect sim_driver example_params (world (new_manager wrong_probe_world)) = (Inr 0, ?v1) \<and>
           (drv_set_autocommit sim_driver 0 True ?v1 = (Inl ?e, ?v1)
            \<or> drv_set_autocommit sim_driver 0 True ?v1 = (Inr (), ?v1) \<and>
              (drv_cursor sim_driver 0 ?v1 = (Inl ?e, ?v1)
               \<or> drv_cursor sim_driver 0 ?v1 = (Inr 0, ?v1) \<and>
                 (drv_execute sim_driver 0 ''SELECT 1'' None ?v1 = (Inl ?e, ?v4)
                  \<or> drv_execute sim_driver 0 ''SELECT 1'' None ?v1 = (Inr (), ?v4) \<and>
                    (drv_fetchone sim_driver 0 ?v4 = (Inl ?e, ?v5)
                     \<or> drv_fetchone sim_driver 0 ?v4 = (Inr (Some [PyInt 0]), ?v5) \<and>
                       (drv_cursor_close sim_driver 0 ?v5 = (Inl ?e, ?v5)
                        \<or> drv_cursor_close sim_driver 0 ?v5 = (Inr (), ?v5) \<and>
                          \<not> probe_ok (Some [PyInt 0])))))))"
    by (simp add: n p nm) (simp add: sim_defs)
  note r3 = T [of sim_lib env_example sim_driver "new_manager wrong_probe_world",
        THEN conjunct2, THEN conjunct2, THEN conjunct2, THEN conjunct2, THEN conjunct2,
        THEN conjunct2, THEN conjunct2, THEN conjunct1, rule_format, OF hw]
  have r4: "connect sim_lib Map.empty sim_driver (new_manager healthy_world)
       = (Inr False, new_manager healthy_world)"
    using T [of sim_lib Map.empty sim_driver "new_manager healthy_world",
        THEN conjunct2, THEN conjunct2, THEN conjunct1, rule_format, OF conjI, OF n b]
    by (simp add: new_manager_def)
  have r5: "fst (is_connected sim_driver (holding_manager down_world)) = Inr False"
    using T [of sim_lib env_example sim_driver "holding_manager down_world",
        THEN conjunct2, THEN conjunct2, THEN conjunct2, THEN conjunct2, THEN conjunct1,
        rule_format, OF d]
    by simp
  have i2: "connection (holding_manager healthy_world) = Some 0
      \<and> \<not> drv_closed (failing_driver 2) (world (holding_manager healthy_world)) 0
      \<and> (drv_cursor (failing_driver 2) 0 (world (holding_manager healthy_world)) = (Inl (Psycopg2Error ''cursor failed''), ?w1)
         \<or> drv_cursor (failing_driver 2) 0 (world (holding_manager healthy_world)) = (Inr 0, ?w1) \<and>
           (drv_execute (failing_driver 2) 0 ''SELECT 1'' None ?w1 = (Inl (Psycopg2Error ''cursor failed''), ?w1)
            \<or> drv_execute (failing_driver 2) 0 ''SELECT 1'' None ?w1 = (Inr (), ?w1) \<and>
              (drv_fetchone (failing_driver 2) 0 ?w1 = (Inl (Psycopg2Error ''cursor failed''), ?w1)
               \<or> drv_fetchone (failing_driver 2) 0 ?w1 = (Inr None, ?w1) \<and>
                 drv_cursor_close (failing_driver 2) 0 ?w1 = (Inl (Psycopg2Error ''cursor failed''), ?w1))))"
    by (simp add: hm failing_driver_steps del: One_nat_def)
  have i3: "connection (holding_manager healthy_world) = Some 0
      \<and> \<not> drv_closed (failing_driver 3) (world (holding_manager healthy_world)) 0
      \<and> (drv_cursor (failing_driver 3) 0 (world (holding_manager healthy_world)) = (Inl ?e, ?w1)
         \<or> drv_cursor (failing_driver 3) 0 (world (holding_manager healthy_world)) = (Inr 0, ?w1) \<and>
           (drv_execute (failing_driver 3) 0 ''SELECT 1'' None ?w1 = (Inl ?e, ?w1)
            \<or> drv_execute (failing_driver 3) 0 ''SELECT 1'' None ?w1 = (Inr (), ?w1) \<and>
              (drv_fetchone (failing_driver 3) 0 ?w1 = (Inl ?e, ?w1)
               \<or> drv_fetchone (failing_driver 3) 0 ?w1 = (Inr None, ?w1) \<and>
                 drv_cursor_close (failing_driver 3) 0 ?w1 = (Inl ?e, ?w1))))"
    by (simp add: hm failing_driver_steps del: One_nat_def)
  have i4: "connection (holding_manager healthy_world) = Some 0
      \<and> \<not> drv_closed (failing_driver 4) (world (holding_manager healthy_world)) 0
      \<and> (drv_cursor (failing_driver 4) 0 (world (holding_manager healthy_world)) = (Inl ?e, ?w1)
         \<or> drv_cursor (failing_driver 4) 0 (world (holding_manager healthy_world)) = (Inr 0, ?w1) \<and>
           (drv_execute (failing_driver 4) 0 ''SELECT 1'' None ?w1 = (Inl ?e, ?w4)
            \<or> drv_execute (failing_driver 4) 0 ''SELECT 1'' None ?w1 = (Inr (), ?w4) \<and>
              (drv_fetchone (failing_driver 4) 0 ?w4 = (Inl ?e, ?w4)
               \<or> drv_fetchone (failing_driver 4) 0 ?w4 = (Inr None, ?w4) \<and>
                 drv_cursor_close (failing_driver 4) 0 ?w4 = (Inl ?e, ?w4))))"
    by (simp add: hm failing_driver_steps del: One_nat_def)
  have i5: "connection (holding_manager healthy_world) = Some 0
      \<and> \<not> drv_closed (failing_driver 5) (world (holding_manager healthy_world)) 0
      \<and> (drv_cursor (failing_driver 5) 0 (world (holding_manager healthy_world)) = (Inl (Psycopg2Error ''cursor close failed''), ?w1)
         \<or> drv_cursor (failing_driver 5) 0 (world (holding_manager healthy_world)) = (Inr 0, ?w1) \<and>
           (drv_execute (failing_driver 5) 0 ''SELECT 1'' None ?w1 = (Inl (Psycopg2Error ''cursor close failed''), ?w4)
            \<or> drv_execute (failing_driver 5) 0 ''SELECT 1'' None ?w1 = (Inr (), ?w4) \<and>
              (drv_fetchone (failing_driver 5) 0 ?w4 = (Inl (Psycopg2Error ''cursor close failed''), ?w5)
               \<or> drv_fetchone (failing_driver 5) 0 ?w4 = (Inr (Some [PyInt 1]), ?w5) \<and>
                 drv_cursor_close (failing_driver 5) 0 ?w5 = (Inl (Psycopg2Error ''cursor close failed''), ?w5))))"
    by (simp add: hm failing_driver_steps del: One_nat_def)
  note I = T [THEN conjunct2, THEN conjunct2, THEN conjunct2, THEN conjunct2, THEN conjunct2,
        THEN conjunct2, THEN conjunct2, THEN conjunct2, rule_format]
  have r6: "fst (is_connected (failing_driver 2) (holding_manager healthy_world)) = Inr False"
    by (rule I [OF i2])
  have r7: "fst (is_connected (failing_driver 3) (holding_manager healthy_world)) = Inr False"
    by (rule I [OF i3])
  have r8: "fst (is_connected (failing_driver 4) (holding_manager healthy_world)) = Inr False"
    by (rule I [OF i4])
  have r9: "fst (is_connected (failing_driver 5) (holding_manager healthy_world)) = Inr False"
    by (rule I [OF i5])
  have r10: "is_connected sim_driver (new_manager healthy_world)
      = (Inr False, new_manager healthy_world)"
    by (rule T [of sim_lib env_example sim_driver "new_manager healthy_world",
        THEN conjunct2, THEN conjunct2, THEN conjunct2, THEN conjunct2, THEN conjunct2,
        THEN conjunct1, rule_format, OF n])
  have f: "connection (holding_manager wrong_probe_world) = Some 0
     \<and> \<not> drv_closed sim_driver (world (holding_manager wrong_probe_world)) 0
     \<and> drv_cursor sim_driver 0 (world (holding_manager wrong_probe_world)) = (Inr 0, ?v1)
     \<and> drv_execute sim_driver 0 ''SELECT 1'' None ?v1 = (Inr (), ?v4)
     \<and> drv_fetchone sim_driver 0 ?v4 = (Inr (Some [PyInt 0]), ?v5)
     \<and> drv_cursor_close sim_driver 0 ?v5 = (Inr (), ?v5)"
    by (simp add: sim_defs)
  note r11 = T [of sim_lib env_example sim_driver "holding_manager wrong_probe_world",
        THEN conjunct2, THEN conjunct2, THEN conjunct2, THEN conjunct2, THEN conjunct2,
        THEN conjunct2, THEN conjunct1, rule_format, OF f]
  have d': "fst (is_connected_body sim_driver (holding_manager down_world))
       = Inl (OperationalError ''server closed the connection unexpectedly'')"
    by (simp add: d)
  from a r1 r2 r3 b r4 d' r5 r6 r7 r8 r9 r10 r11 show ?thesis by blast
qed

section \<open>The health check\<close>

text \<open>
  Claim C9 as it is written fails: a probe can fail without \<^verbatim>\<open>is_connected\<close> returning
  \<^verbatim>\<open>False\<close>. On a server that answers the probe with no row, \<^verbatim>\<open>connect\<close> reports the
  failed probe with \<^verbatim>\<open>False\<close>, while \<^verbatim>\<open>is_connected\<close> on a held connection returns
  \<^verbatim>\<open>True\<close>.
\<close>

theorem is_connected_empty_probe_counterexample:
  "fst (connect sim_lib env_example sim_driver (new_manager empty_probe_world)) = Inr False
   \<and> is_connected sim_driver (holding_manager empty_probe_world)
     = (Inr True,
        \<lparr>connection = Some 0,
         world = empty_probe_world\<lparr>issued := 1, pending := Some []\<rparr>,
         trace = [Cursor 0 (Inr 0), Execute 0 ''SELECT 1'' None (Inr ()),
                  Fetchone 0 (Inr None), CursorClose 0 (Inr ())]\<rparr>)"
  by (simp add: is_connected_def is_connected_body_def connect_def connect_body_def
      action_defs connection_open_def get_connection_params_def getenv_def sim_defs)

text \<open>
  Claim C9, amended: \<^verbatim>\<open>is_connected\<close> never changes the stored connection and never calls
  the driver's \<^verbatim>\<open>close\<close>. When one of the driver calls of its probe raises it returns
  \<^verbatim>\<open>False\<close>; when they all succeed it returns \<^verbatim>\<open>True\<close>, whatever row was fetched; the
  connection stays stored in both cases. The stored connection is cleared by the
  \<^verbatim>\<open>except\<close> clauses of \<^verbatim>\<open>connect\<close> only: \<^verbatim>\<open>connect\<close> ends with no stored connection only
  when its body raised, \<^verbatim>\<open>close\<close> keeps the stored connection, and \<^verbatim>\<open>execute_query\<close> ends
  with the stored connection it began with or with the one its call of \<^verbatim>\<open>connect\<close> left.
\<close>

theorem is_connected_keeps_handle:
  "connection (snd (is_connected drv s)) = connection s
   \<and> filter is_close (new_events s (snd (is_connected drv s))) = []
   \<and> (\<forall>e s'. is_connected_body drv s = (Inl e, s') \<longrightarrow>
        is_connected drv s = (Inr False, s') \<and> connection s' = connection s)
   \<and> (connection (snd (connect lib env drv s)) = None \<longrightarrow>
        (\<exists>e. fst (connect_body lib env drv s) = Inl e))
   \<and> connection (snd (close drv s)) = connection s
   \<and> (connection (snd (execute_query lib env drv query params s)) = connection s
      \<or> connection (snd (execute_query lib env drv query params s))
          = connection (snd (connect lib env drv (snd (is_connected drv s)))))
   \<and> (\<forall>h c r e w1 w2 w3 w4.
         connection s = Some h \<and> \<not> drv_closed drv (world s) h \<and>
         (drv_cursor drv h (world s) = (Inl e, w1)
          \<or> drv_cursor drv h (world s) = (Inr c, w1) \<and>
            (drv_execute drv c ''SELECT 1'' None w1 = (Inl e, w2)
             \<or> drv_execute drv c ''SELECT 1'' None w1 = (Inr (), w2) \<and>
               (drv_fetchone drv c w2 = (Inl e, w3)
                \<or> drv_fetchone drv c w2 = (Inr r, w3) \<and>
                  drv_cursor_close drv c w3 = (Inl e, w4)))) \<longrightarrow>
         fst (is_connected drv s) = Inr False
         \<and> connection (snd (is_connected drv s)) = Some h)
   \<and> (\<forall>h c r w1 w2 w3 w4.
         connection s = Some h \<and> \<not> drv_closed drv (world s) h \<and>
         drv_cursor drv h (world s) = (Inr c, w1) \<and>
         drv_execute drv c ''SELECT 1'' None w1 = (Inr (), w2) \<and>
         drv_fetchone drv c w2 = (Inr r, w3) \<and>
         drv_cursor_close drv c w3 = (Inr (), w4) \<longrightarrow>
         fst (is_connected drv s) = Inr True
         \<and> connection (snd (is_connected drv s)) = Some h)"
proof (intro conjI allI impI)
  show k: "connection (snd (is_connected drv s)) = connection s"
    by (simp add: is_connected_state is_connected_body_connection)
  show "filter is_close (new_events s (snd (is_connected drv s))) = []"
    using is_connected_events [of drv s] by (auto simp: new_events_def)
  show "connection (snd (close drv s)) = connection s"
    by (rule close_connection)
  have "connection (snd (execute_query lib env drv query params s))
      = connection (snd (ensure_connected lib env drv s))"
    using run_statement_connection [of drv query params "snd (ensure_connected lib env drv s)"]
    by (auto simp: execute_query_def and_then_def split: prod.splits sum.splits)
  then show "connection (snd (execute_query lib env drv query params s)) = connection s
      \<or> connection (snd (execute_query lib env drv query params s))
          = connection (snd (connect lib env drv (snd (is_connected drv s))))"
    using ensure_connected_connection [of lib env drv s] by simp
  {
    fix h c r e w1 w2 w3 w4
    assume a: "connection s = Some h \<and> \<not> drv_closed drv (world s) h \<and>
         (drv_cursor drv h (world s) = (Inl e, w1)
          \<or> drv_cursor drv h (world s) = (Inr c, w1) \<and>
            (drv_execute drv c ''SELECT 1'' None w1 = (Inl e, w2)
             \<or> drv_execute drv c ''SELECT 1'' None w1 = (Inr (), w2) \<and>
               (drv_fetchone drv c w2 = (Inl e, w3)
                \<or> drv_fetchone drv c w2 = (Inr r, w3) \<and>
                  drv_cursor_close drv c w3 = (Inl e, w4))))"
    then show "fst (is_connected drv s) = Inr False"
      by (elim conjE disjE)
        (simp_all add: is_connected_raises_at_cursor is_connected_raises_at_execute
          is_connected_raises_at_fetchone is_connected_raises_at_cursor_close)
    from a k show "connection (snd (is_connected drv s)) = Some h" by simp
  }
  {
    fix h c r w1 w2 w3 w4
    assume a: "connection s = Some h \<and> \<not> drv_closed drv (world s) h \<and>
         drv_cursor drv h (world s) = (Inr c, w1) \<and>
         drv_execute drv c ''SELECT 1'' None w1 = (Inr (), w2) \<and>
         drv_fetchone drv c w2 = (Inr r, w3) \<and>
         drv_cursor_close drv c w3 = (Inr (), w4)"
    then show "fst (is_connected drv s) = Inr True"
      by (simp add: is_connected_probe_completes)
    from a k show "connection (snd (is_connected drv s)) = Some h" by simp
  }
next
  fix e s' assume a: "is_connected_body drv s = (Inl e, s')"
  then show "is_connected drv s = (Inr False, s')"
    by (simp add: is_connected_def)
  from a is_connected_body_connection [of drv s] show "connection s' = connection s"
    by simp
next
  assume n: "connection (snd (connect lib env drv s)) = None"
  obtain r s' where b: "connect_body lib env drv s = (r, s')"
    by (cases "connect_body lib env drv s")
  show "\<exists>e. fst (connect_body lib env drv s) = Inl e"
  proof (cases r)
    case (Inl e)
    with b show ?thesis by simp
  next
    case (Inr ok)
    with b n connect_body_Inr_connection [of lib env drv s ok s'] show ?thesis
      by (simp add: connect_body_result)
  qed
qed

text \<open>
  Claim C9, amended: on a manager that holds connection 0 to a server that has gone down
  (the execution of the probe raises, the connection stays stored, and the \<^verbatim>\<open>connect\<close>
  that follows clears it because its body raises), on a driver whose \<^verbatim>\<open>fetchone\<close> raises,
  and on a server that answers the probe with no row.
\<close>

theorem is_connected_keeps_handle_witness:
  "fst (is_connected_body sim_driver (holding_manager down_world))
       = Inl (OperationalError ''server closed the connection unexpectedly'')
   \<and> fst (is_connected sim_driver (holding_manager down_world)) = Inr False
   \<and> connection (snd (is_connected sim_driver (holding_manager down_world))) = Some 0
   \<and> connection (snd (connect sim_lib env_example sim_driver
        (snd (is_connected sim_driver (holding_manager down_world))))) = None
   \<and> (\<exists>e. fst (connect_body sim_lib env_example sim_driver
        (snd (is_connected sim_driver (holding_manager down_world)))) = Inl e)
   \<and> fst (is_connected (failing_driver 4) (holding_manager healthy_world)) = Inr False
   \<and> connection (snd (is_connected (failing_driver 4) (holding_manager healthy_world))) = Some 0
   \<and> fst (is_connected sim_driver (holding_manager empty_probe_world)) = Inr True
   \<and> connection (snd (is_connected sim_driver (holding_manager empty_probe_world))) = Some 0"
proof -
  let ?w1 = "healthy_world\<lparr>issued := 1\<rparr>"
  let ?w4 = "healthy_world\<lparr>issued := 1, pending := Some [[PyInt 1]]\<rparr>"
  let ?v1 = "empty_probe_world\<lparr>issued := 1\<rparr>"
  let ?v5 = "empty_probe_world\<lparr>issued := 1, pending := Some []\<rparr>"
  note T = is_connected_keeps_handle
  note hm = holding_manager_fields
  note d = sim_is_connected_body_down
  have r: "is_connected sim_driver (holding_manager down_world)
       = (Inr False, \<lparr>connection = Some 0,
         world = down_world\<lparr>issued := 1, closed_handles := [0]\<rparr>,
         trace = [Cursor 0 (Inr 0),
                  Execute 0 ''SELECT 1'' None
                    (Inl (OperationalError ''server closed the connection unexpectedly''))]\<rparr>)"
    using T [of sim_driver "holding_manager down_world", THEN conjunct2, THEN conjunct2,
        THEN conjunct1, rule_format, OF d]
    by simp
  have c: "connection (snd (connect sim_lib env_example sim_driver
        (snd (is_connected sim_driver (holding_manager down_world))))) = None"
    unfolding r
    by (simp add: connect_def connect_body_def action_defs connection_open_def
        get_connection_params_def getenv_def sim_defs)
  note b = T [of sim_driver "snd (is_connected sim_driver (holding_manager down_world))"
        sim_lib env_example, THEN conjunct2, THEN conjunct2, THEN conjunct2, THEN conjunct1,
        rule_format, OF c]
  have i4: "connection (holding_manager healthy_world) = Some 0
      \<and> \<not> drv_closed (failing_driver 4) (world (holding_manager healthy_world)) 0
      \<and> (drv_cursor (failing_driver 4) 0 (world (holding_manager healthy_world)) = (Inl (OperationalError ''connection reset''), ?w1)
         \<or> drv_cursor (failing_driver 4) 0 (world (holding_manager healthy_world)) = (Inr 0, ?w1) \<and>
           (drv_execute (failing_driver 4) 0 ''SELECT 1'' None ?w1 = (Inl (OperationalError ''connection reset''), ?w4)
            \<or> drv_execute (failing_driver 4) 0 ''SELECT 1'' None ?w1 = (Inr (), ?w4) \<and>
              (drv_fetchone (failing_driver 4) 0 ?w4 = (Inl (OperationalError ''connection reset''), ?w4)
               \<or> drv_fetchone (failing_driver 4) 0 ?w4 = (Inr None, ?w4) \<and>
                 drv_cursor_close (failing_driver 4) 0 ?w4 = (Inl (OperationalError ''connection reset''), ?w4))))"
    by (simp add: hm failing_driver_steps del: One_nat_def)
  note r4 = T [of "failing_driver 4" "holding_manager healthy_world", THEN conjunct2,
        THEN conjunct2, THEN conjunct2, THEN conjunct2, THEN conjunct2, THEN conjunct2,
        THEN conjunct1, rule_format, OF i4]
  have f: "connection (holding_manager empty_probe_world) = Some 0
     \<and> \<not> drv_closed sim_driver (world (holding_manager empty_probe_world)) 0
     \<and> drv_cursor sim_driver 0 (world (holding_manager empty_probe_world)) = (Inr 0, ?v1)
     \<and> drv_execute sim_driver 0 ''SELECT 1'' None ?v1 = (Inr (), ?v5)
     \<and> drv_fetchone sim_driver 0 ?v5 = (Inr None, ?v5)
     \<and> drv_cursor_close sim_driver 0 ?v5 = (Inr (), ?v5)"
    by (simp add: sim_defs)
  note r5 = T [of sim_driver "holding_manager empty_probe_world", THEN conjunct2,
        THEN conjunct2, THEN conjunct2, THEN conjunct2, THEN conjunct2, THEN conjunct2,
        THEN conjunct2, rule_format, OF f]
  from d r c b r4 r5 show ?thesis by simp
qed

section \<open>Running a query\<close>

text \<open>
  Claim C1: \<^verbatim>\<open>execute_query\<close> calls \<^verbatim>\<open>is_connected\<close> once. When the answer is \<^verbatim>\<open>True\<close> it
  runs the statement in the state \<^verbatim>\<open>is_connected\<close> left, with no call of \<^verbatim>\<open>connect\<close>. When
  the answer is \<^verbatim>\<open>False\<close> it calls \<^verbatim>\<open>connect\<close> exactly once: if that returns \<^verbatim>\<open>True\<close> the
  statement runs in the state this one \<^verbatim>\<open>connect\<close> left; if it returns \<^verbatim>\<open>False\<close>,
  \<^verbatim>\<open>execute_query\<close> raises \<^verbatim>\<open>OperationalError\<close> in that state, so the query never reaches the
  driver, and the only statements sent during the call are the probes of the two
  operations. In every case the call makes at most one connection attempt.
\<close>

theorem execute_query_reconnects_once:
  "(\<forall>s1. is_connected drv s = (Inr True, s1) \<longrightarrow>
        execute_query lib env drv query params s = run_statement drv query params s1)
   \<and> (\<forall>s1 s2. is_connected drv s = (Inr False, s1) \<and> connect lib env drv s1 = (Inr True, s2)
        \<longrightarrow> execute_query lib env drv query params s = run_statement drv query params s2)
   \<and> (\<forall>s1 s2. is_connected drv s = (Inr False, s1) \<and> connect lib env drv s1 = (Inr False, s2)
        \<longrightarrow> execute_query lib env drv query params s
              = (Inl (OperationalError ''Failed to reconnect to database''), s2)
            \<and> filter is_other_statement (new_events s s2) = [])
   \<and> length (filter is_connect
         (new_events s (snd (execute_query lib env drv query params s)))) \<le> 1"
proof (intro conjI allI impI)
  fix s1 assume "is_connected drv s = (Inr True, s1)"
  then show "execute_query lib env drv query params s = run_statement drv query params s1"
    by (rule execute_query_connected)
next
  fix s1 s2
  assume "is_connected drv s = (Inr False, s1) \<and> connect lib env drv s1 = (Inr True, s2)"
  then show "execute_query lib env drv query params s = run_statement drv query params s2"
    by (simp add: execute_query_reconnected)
next
  fix s1 s2
  assume a: "is_connected drv s = (Inr False, s1) \<and> connect lib env drv s1 = (Inr False, s2)"
  then show "execute_query lib env drv query params s
              = (Inl (OperationalError ''Failed to reconnect to database''), s2)"
    by (simp add: execute_query_not_reconnected)
  obtain evs1 where e1: "trace s1 = trace s @ evs1" "filter is_other_statement evs1 = []"
    using is_connected_events [of drv s] a by auto
  obtain evs2 where e2: "trace s2 = trace s1 @ evs2" "filter is_other_statement evs2 = []"
    using connect_events [of lib env drv s1] a by auto
  show "filter is_other_statement (new_events s s2) = []"
    using e1 e2 by (simp add: new_events_def)
next
  show "length (filter is_connect
         (new_events s (snd (execute_query lib env drv query params s)))) \<le> 1"
    by (rule execute_query_connects)
qed

text \<open>
  Claim C1 on the three branches: a manager that holds a healthy connection, a new manager
  that connects to a healthy server, and a manager that holds connection 0 to a server
  that has gone down.
\<close>

theorem execute_query_reconnects_once_witness:
  "execute_query sim_lib env_example sim_driver ''SELECT * FROM t'' None
        (holding_manager healthy_world)
     = (Inr (Some [[PyInt 1, PyStr ''a''], [PyInt 2, PyStr ''b'']]),
        \<lparr>connection = Some 0,
         world = healthy_world\<lparr>issued := 1, pending := Some []\<rparr>,
         trace = [Cursor 0 (Inr 0), Execute 0 ''SELECT 1'' None (Inr ()),
                  Fetchone 0 (Inr (Some [PyInt 1])), CursorClose 0 (Inr ()),
                  Cursor 0 (Inr 0), Execute 0 ''SELECT * FROM t'' None (Inr ()),
                  Fetchall 0 (Inr [[PyInt 1, PyStr ''a''], [PyInt 2, PyStr ''b'']]),
                  CursorClose 0 (Inr ())]\<rparr>)
   \<and> execute_query sim_lib env_example sim_driver ''SELECT * FROM t'' None
        (new_manager healthy_world)
     = (Inr (Some [[PyInt 1, PyStr ''a''], [PyInt 2, PyStr ''b'']]),
        \<lparr>connection = Some 0,
         world = healthy_world\<lparr>issued := 1, pending := Some []\<rparr>,
         trace = [Connect example_params (Inr 0), SetAutocommit 0 True (Inr ()),
                  Cursor 0 (Inr 0), Execute 0 ''SELECT 1'' None (Inr ()),
                  Fetchone 0 (Inr (Some [PyInt 1])), CursorClose 0 (Inr ()),
                  Cursor 0 (Inr 0), Execute 0 ''SELECT * FROM t'' None (Inr ()),
                  Fetchall 0 (Inr [[PyInt 1, PyStr ''a''], [PyInt 2, PyStr ''b'']]),
                  CursorClose 0 (Inr ())]\<rparr>)
   \<and> execute_query sim_lib env_example sim_driver ''SELECT * FROM t'' None
        (holding_manager down_world)
       = (Inl (OperationalError ''Failed to reconnect to database''),
          \<lparr>connection = None,
           world = down_world\<lparr>issued := 1, closed_handles := [0]\<rparr>,
           trace = [Cursor 0 (Inr 0),
                    Execute 0 ''SELECT 1'' None
                      (Inl (OperationalError ''server closed the connection unexpectedly'')),
                    Connect example_params
                      (Inl (OperationalError ''could not connect to server''))]\<rparr>)"
proof -
  note T = execute_query_reconnects_once
  let ?q = "''SELECT * FROM t''"
  let ?probe = "[Cursor 0 (Inr 0), Execute 0 ''SELECT 1'' None (Inr ()),
                 Fetchone 0 (Inr (Some [PyInt 1])), CursorClose 0 (Inr ())]"
  let ?s1 = "\<lparr>connection = Some 0,
              world = healthy_world\<lparr>issued := 1, pending := Some []\<rparr>, trace = ?probe\<rparr>"
  let ?s2 = "\<lparr>connection = Some 0,
              world = healthy_world\<lparr>issued := 1, pending := Some []\<rparr>,
              trace = [Connect example_params (Inr 0), SetAutocommit 0 True (Inr ())] @ ?probe\<rparr>"
  let ?d1 = "\<lparr>connection = Some 0,
         world = down_world\<lparr>issued := 1, closed_handles := [0]\<rparr>,
         trace = [Cursor 0 (Inr 0),
                  Execute 0 ''SELECT 1'' None
                    (Inl (OperationalError ''server closed the connection unexpectedly''))]\<rparr>"
  let ?d2 = "\<lparr>connection = None,
           world = down_world\<lparr>issued := 1, closed_handles := [0]\<rparr>,
           trace = [Cursor 0 (Inr 0),
                    Execute 0 ''SELECT 1'' None
                      (Inl (OperationalError ''server closed the connection unexpectedly'')),
                    Connect example_params
                      (Inl (OperationalError ''could not connect to server''))]\<rparr>"
  have sel: "is_select ?q" by code_simp
  have run: "run_statement sim_driver ?q None
        \<lparr>connection = Some 0, world = healthy_world\<lparr>issued := 1, pending := Some []\<rparr>,
         trace = tr\<rparr>
      = (Inr (Some [[PyInt 1, PyStr ''a''], [PyInt 2, PyStr ''b'']]),
        \<lparr>connection = Some 0, world = healthy_world\<lparr>issued := 1, pending := Some []\<rparr>,
         trace = tr @ [Cursor 0 (Inr 0), Execute 0 ?q None (Inr ()),
                  Fetchall 0 (Inr [[PyInt 1, PyStr ''a''], [PyInt 2, PyStr ''b'']]),
                  CursorClose 0 (Inr ())]\<rparr>)" for tr
    using sel by (simp add: run_statement_def action_defs sim_defs)
  have a1: "is_connected sim_driver (holding_manager healthy_world) = (Inr True, ?s1)"
    by (simp add: is_connected_def is_connected_body_def action_defs connection_open_def
        sim_defs)
  have r1: "execute_query sim_lib env_example sim_driver ?q None
        (holding_manager healthy_world) = run_statement sim_driver ?q None ?s1"
    by (rule T [THEN conjunct1, rule_format, OF a1])
  have b1: "is_connected sim_driver (new_manager healthy_world)
      = (Inr False, new_manager healthy_world)"
    by (simp add: is_connected_not_open new_manager_not_open)
  have b2: "connect sim_lib env_example sim_driver (new_manager healthy_world)
      = (Inr True, ?s2)"
    by (simp add: sim_connect_healthy example_params_def)
  have r2: "execute_query sim_lib env_example sim_driver ?q None
        (new_manager healthy_world) = run_statement sim_driver ?q None ?s2"
    by (rule T [THEN conjunct2, THEN conjunct1, rule_format, OF conjI, OF b1 b2])
  have c1: "is_connected sim_driver (holding_manager down_world) = (Inr False, ?d1)"
    by (simp add: is_connected_def sim_is_connected_body_down)
  have c2: "connect sim_lib env_example sim_driver ?d1 = (Inr False, ?d2)"
    by (simp add: connect_def connect_body_def action_defs connection_open_def
        get_connection_params_def getenv_def sim_defs example_params_def)
  note r3 = T [THEN conjunct2, THEN conjunct2, THEN conjunct1, rule_format, OF conjI,
      OF c1 c2, THEN conjunct1]
  note f1 = r1 [unfolded run]
  note f2 = r2 [unfolded run]
  from f1 f2 r3 [of ?q None] show ?thesis
    by simp
qed



section \<open>Closing\<close>

text \<open>
  Claim C8 as it is written fails: \<^verbatim>\<open>close\<close> on a manager that holds the open connection
  0 closes it, and the connection stays stored in \<^verbatim>\<open>self.connection\<close>.
\<close>

theorem close_keeps_reference_counterexample:
  "connection (holding_manager healthy_world) = Some 0
   \<and> \<not> drv_closed sim_driver (world (holding_manager healthy_world)) 0
   \<and> fst (close sim_driver (holding_manager healthy_world)) = Inr ()
   \<and> trace (snd (close sim_driver (holding_manager healthy_world))) = [Close 0 (Inr ())]
   \<and> connection (snd (close sim_driver (holding_manager healthy_world))) = Some 0"
  by (simp add: close_def action_defs connection_open_def sim_defs)

text \<open>
  Claim C8, amended: whenever a connection is stored and is not closed, \<^verbatim>\<open>close\<close> makes
  exactly one driver call, the \<^verbatim>\<open>close\<close> of that connection, and passes on its outcome;
  the stored reference is kept in every case. On a closed or absent connection \<^verbatim>\<open>close\<close>
  does nothing, so a second \<^verbatim>\<open>close\<close> leaves the manager as it is whenever the driver
  reports the connection closed after the first.
\<close>

theorem close_closes_once:
  "(connection s = Some h \<and> \<not> drv_closed drv (world s) h \<longrightarrow>
      close drv s
        = (fst (drv_close drv h (world s)),
           s\<lparr>world := snd (drv_close drv h (world s)),
             trace := trace s @ [Close h (fst (drv_close drv h (world s)))]\<rparr>))
   \<and> connection (snd (close drv s)) = connection s
   \<and> (\<not> connection_open drv s \<longrightarrow> close drv s = (Inr (), s))
   \<and> (\<not> connection_open drv (snd (close drv s)) \<longrightarrow>
        close drv (snd (close drv s)) = (Inr (), snd (close drv s)))"
  by (auto simp: close_not_open close_connection)
     (auto simp: close_def action_defs connection_open_def split: prod.splits)

text \<open>
  Claim C8, amended, on a manager that holds the open connection 0, closed twice, and on
  a new manager.
\<close>

theorem close_closes_once_witness:
  "close sim_driver (holding_manager healthy_world)
     = (Inr (),
        \<lparr>connection = Some 0, world = healthy_world\<lparr>issued := 1, closed_handles := [0]\<rparr>,
         trace = [Close 0 (Inr ())]\<rparr>)
   \<and> \<not> connection_open sim_driver (snd (close sim_driver (holding_manager healthy_world)))
   \<and> close sim_driver (snd (close sim_driver (holding_manager healthy_world)))
       = (Inr (), snd (close sim_driver (holding_manager healthy_world)))
   \<and> close sim_driver (new_manager healthy_world) = (Inr (), new_manager healthy_world)"
proof -
  have o: "connection (holding_manager healthy_world) = Some 0
      \<and> \<not> drv_closed sim_driver (world (holding_manager healthy_world)) 0"
    by (simp add: sim_defs)
  from close_closes_once [of "holding_manager healthy_world" 0 sim_driver] o
  have "close sim_driver (holding_manager healthy_world)
        = (fst (drv_close sim_driver 0 (world (holding_manager healthy_world))),
           (holding_manager healthy_world)
             \<lparr>world := snd (drv_close sim_driver 0 (world (holding_manager healthy_world))),
              trace := trace (holding_manager healthy_world) @
                [Close 0 (fst (drv_close sim_driver 0 (world (holding_manager healthy_world))))]\<rparr>)"
    by blast
  then have a: "close sim_driver (holding_manager healthy_world)
     = (Inr (),
        \<lparr>connection = Some 0, world = healthy_world\<lparr>issued := 1, closed_handles := [0]\<rparr>,
         trace = [Close 0 (Inr ())]\<rparr>)"
    by (simp add: sim_defs)
  have b: "\<not> connection_open sim_driver (snd (close sim_driver (holding_manager healthy_world)))"
    unfolding a by (simp add: connection_open_def sim_defs)
  have c: "\<not> connection_open sim_driver (new_manager healthy_world)"
    by (simp add: connection_open_def new_manager_def)
  from close_closes_once [of "holding_manager healthy_world" 0 sim_driver] b
  have r1: "close sim_driver (snd (close sim_driver (holding_manager healthy_world)))
       = (Inr (), snd (close sim_driver (holding_manager healthy_world)))"
    by blast
  from close_closes_once [of "new_manager healthy_world" 0 sim_driver] c
  have r2: "close sim_driver (new_manager healthy_world) = (Inr (), new_manager healthy_world)"
    by blast
  from a b r1 r2 show ?thesis by blast
qed

end
